theory Spec2Isabelle
  imports Complex_Main "HOL-Library.AList"
begin

section \<open>The Bybit gateway: data model\<close>

text \<open>
  A shallow embedding of \<^verbatim>\<open>vnpy/gateway/bybit/bybit_gateway.py\<close>. Python objects that are
  mutated in place are passed and returned explicitly. A handler returns the exception it
  raised, if any, together with the state it leaves behind: a Python exception does not
  undo the assignments made before it.

  Wire packets are held in decoded form: a field read with \<^verbatim>\<open>float(...)\<close> or
  \<^verbatim>\<open>generate_datetime(...)\<close> is kept as the number or the instant it decodes to. Fields
  whose raw value the code tests (\<^verbatim>\<open>last_price_e4\<close>, \<^verbatim>\<open>timestamp_e6\<close>) are kept as
  JSON values. Floating point numbers are modelled by rationals. The data classes of
  \<^verbatim>\<open>vnpy.trader.object\<close> are records of the fields that the handlers set; the fields
  \<^verbatim>\<open>exchange\<close> and \<^verbatim>\<open>gateway_name\<close>, which are constants of the gateway, are kept for
  ticks and orders only.

  A packet whose \<^verbatim>\<open>data\<close> has another shape than the handler subscripts (a list where
  it expects a dict, or the reverse) makes the subscript raise; the model reports
  \<^verbatim>\<open>TypeError\<close> for every such mismatch. A \<^verbatim>\<open>for\<close> loop over \<^verbatim>\<open>data\<close> subscripts
  nothing when \<^verbatim>\<open>data\<close> is empty, whatever its shape: then it runs no round and
  raises nothing.
\<close>

datatype error = KeyError | IndexError | TypeError | ValueError | AttributeError | RuntimeError

datatype jval = JNull | JInt int | JFloat rat | JStr string

text \<open>Python truthiness, as tested by \<^verbatim>\<open>if not v\<close>.\<close>

fun truthy :: "jval \<Rightarrow> bool" where
  "truthy JNull = False"
| "truthy (JInt n) = (n \<noteq> 0)"
| "truthy (JFloat r) = (r \<noteq> 0)"
| "truthy (JStr s) = (s \<noteq> [])"

datatype Status = NOTTRADED | PARTTRADED | ALLTRADED | CANCELLED | REJECTED

datatype Direction = LONG | SHORT | NET

datatype OrderType = LIMIT | MARKET

datatype Interval = MINUTE | HOUR | DAILY | WEEKLY

text \<open>Instants are seconds since the epoch.\<close>

type_synonym datetime = rat

record TickData =
  tk_symbol :: string
  tk_exchange :: string
  tk_name :: string
  tk_gateway_name :: string
  tk_datetime :: datetime
  last_price :: rat
  volume :: jval
  bid_price :: "rat list"
  bid_volume :: "rat list"
  ask_price :: "rat list"
  ask_volume :: "rat list"

text \<open>
  The four lists hold the attributes \<^verbatim>\<open>bid_price_1\<close> .. \<^verbatim>\<open>bid_price_5\<close> and so on:
  element \<open>i\<close> is the attribute with number \<open>i + 1\<close>.
\<close>

record OrderData =
  od_symbol :: string
  orderid :: string
  od_type :: OrderType
  od_direction :: Direction
  od_price :: rat
  od_volume :: rat
  traded :: rat
  status :: Status
  od_datetime :: datetime
  od_gateway_name :: string

record TradeData =
  td_symbol :: string
  td_orderid :: string
  tradeid :: string
  td_direction :: Direction
  td_price :: rat
  td_volume :: rat
  td_datetime :: datetime

record PositionData =
  ps_symbol :: string
  ps_direction :: Direction
  ps_volume :: rat
  ps_price :: rat

record AccountData =
  accountid :: string
  balance :: rat
  frozen :: rat

record BarData =
  bar_symbol :: string
  bar_datetime :: int
  bar_interval :: Interval
  bar_volume :: rat
  open_price :: rat
  high_price :: rat
  low_price :: rat
  close_price :: rat

text \<open>The exception classes a REST callback can be handed.\<close>

datatype exception_type =
  Exc_ConnectionError | Exc_ConnectionError_subclass string | Exc_other string

text \<open>
  The messages given to \<^verbatim>\<open>gateway.write_log\<close>, one constructor per format string of
  the source, with the values it interpolates.
\<close>

datatype api_name = Name_send_order | Name_query_order

datatype log_msg =
    Log_check_error api_name int string
  | Log_exception exception_type string
  | Log_query_order_done
  | Log_history_failed int string
  | Log_history_error string
  | Log_history_empty int int
  | Log_history_ok string Interval int int
  | Log_login_ok
  | Log_login_failed
  | Log_already_bound string string
  | Log_identity_conflict string string

datatype event =
    OnLog log_msg
  | OnTick TickData
  | OnOrder OrderData
  | OnTrade TradeData
  | OnPosition PositionData
  | OnAccount AccountData

subsection \<open>Dictionaries\<close>

text \<open>
  A Python \<^verbatim>\<open>dict\<close> keeps its keys in insertion order: it is an association list with
  distinct keys. \<^verbatim>\<open>d[k] = v\<close> is \<^const>\<open>AList.update\<close> (in place, or appended),
  \<^verbatim>\<open>d.pop(k)\<close> raises \<^verbatim>\<open>KeyError\<close> for a key that is absent.
\<close>

type_synonym ('k, 'v) dict = "('k \<times> 'v) list"

definition dict_pop :: "'k \<Rightarrow> ('k, 'v) dict \<Rightarrow> error + ('k, 'v) dict" where
  "dict_pop k d = (case map_of d k of None \<Rightarrow> Inl KeyError | Some v \<Rightarrow> Inr (AList.delete k d))"

definition dict_get :: "('k, 'v) dict \<Rightarrow> 'k \<Rightarrow> error + 'v" where
  "dict_get d k = (case map_of d k of None \<Rightarrow> Inl KeyError | Some v \<Rightarrow> Inr v)"

definition list_get :: "'a list \<Rightarrow> nat \<Rightarrow> error + 'a" where
  "list_get xs i = (if i < length xs then Inr (xs ! i) else Inl IndexError)"

subsection \<open>Strings\<close>

text \<open>
  \<^verbatim>\<open>s.replace(pat, "")\<close> for a pattern that is not empty: every occurrence of the pattern,
  found from the left, is removed.
\<close>

function str_remove :: "string \<Rightarrow> string \<Rightarrow> string" where
  "str_remove pat [] = []"
| "str_remove pat (c # cs) =
     (if pat \<noteq> [] \<and> take (length pat) (c # cs) = pat
      then str_remove pat (drop (length pat) (c # cs))
      else c # str_remove pat cs)"
  by pat_completeness auto
termination
  by (relation "measure (\<lambda>(pat, s). length s)") auto

declare str_remove.simps [simp del]

text \<open>
  \<^verbatim>\<open>int(s)\<close> on a string: an optional sign and decimal digits. (Python also accepts
  surrounding blanks and underscores between digits, which the venue does not send.)
\<close>

definition digit_of :: "char \<Rightarrow> nat option" where
  "digit_of c =
     (let n = (of_char c :: nat) in if 48 \<le> n \<and> n \<le> 57 then Some (n - 48) else None)"

fun digits_value :: "nat \<Rightarrow> string \<Rightarrow> nat option" where
  "digits_value acc [] = Some acc"
| "digits_value acc (c # cs) =
     (case digit_of c of None \<Rightarrow> None | Some d \<Rightarrow> digits_value (10 * acc + d) cs)"

definition int_of_digits :: "string \<Rightarrow> error + int" where
  "int_of_digits s =
     (if s = [] then Inl ValueError
      else case digits_value 0 s of None \<Rightarrow> Inl ValueError | Some n \<Rightarrow> Inr (int n))"

definition int_of_str :: "string \<Rightarrow> error + int" where
  "int_of_str s =
     (case s of
        [] \<Rightarrow> Inl ValueError
      | c # cs \<Rightarrow>
          if c = CHR ''-'' then
            (case int_of_digits cs of Inl e \<Rightarrow> Inl e | Inr n \<Rightarrow> Inr (- n))
          else if c = CHR ''+'' then int_of_digits cs
          else int_of_digits s)"

text \<open>\<^verbatim>\<open>int(v)\<close> on a JSON value; a float is truncated towards zero.\<close>

fun py_int :: "jval \<Rightarrow> error + int" where
  "py_int JNull = Inl TypeError"
| "py_int (JInt n) = Inr n"
| "py_int (JFloat r) = Inr (if 0 \<le> r then \<lfloor>r\<rfloor> else \<lceil>r\<rceil>)"
| "py_int (JStr s) = int_of_str s"

text \<open>\<^verbatim>\<open>v / k\<close> for a numeric constant \<open>k\<close> that is not zero.\<close>

fun py_div :: "jval \<Rightarrow> rat \<Rightarrow> error + rat" where
  "py_div (JInt n) k = Inr (of_int n / k)"
| "py_div (JFloat r) k = Inr (r / k)"
| "py_div JNull k = Inl TypeError"
| "py_div (JStr s) k = Inl TypeError"

section \<open>Wire packets\<close>

text \<open>One entry of an order book packet: the venue's record for a price level.\<close>

record level =
  lv_price :: rat
  lv_side :: string
  lv_size :: rat

text \<open>
  The \<^verbatim>\<open>data\<close> of an order book packet as a dict; a key that is absent is \<open>None\<close>.
\<close>

record depth_dict =
  order_book :: "level list option"
  dd_delete :: "level list option"
  dd_update :: "level list option"
  dd_insert :: "level list option"

text \<open>The fields of an instrument record that \<^verbatim>\<open>on_tick\<close> reads.\<close>

record tick_fields =
  last_price_e4 :: "jval option"
  volume_24h :: "jval option"
  volume_24h_e8 :: "jval option"
  updated_at :: "datetime option"

record tick_dict =
  tf :: tick_fields
  td_update :: "tick_fields list option"

record order_push =
  op_order_id :: string
  op_order_link_id :: string
  op_symbol :: string
  op_order_type :: string
  op_side :: string
  op_price :: rat
  op_qty :: rat
  op_cum_exec_qty :: rat
  op_order_status :: string
  op_timestamp :: datetime
  op_created_at :: datetime

record trade_push =
  tp_order_id :: string
  tp_order_link_id :: string
  tp_symbol :: string
  tp_exec_id :: string
  tp_side :: string
  tp_price :: rat
  tp_exec_qty :: rat
  tp_trade_time :: datetime

record position_push =
  pp_symbol :: string
  pp_side :: string
  pp_size :: rat
  pp_entry_price :: rat

record account_push =
  wallet_balance :: rat
  available_balance :: rat

datatype pdata =
    DepthList "level list"
  | DepthDict depth_dict
  | TickDict tick_dict
  | OrderList "order_push list"
  | TradeList "trade_push list"
  | PositionList "position_push list"
  | AccountList "account_push list"

record packet =
  topic :: "string option"
  ptype :: string
  pk_data :: pdata
  timestamp_e6 :: jval
  request_op :: "string option"
  success :: "jval option"

text \<open>
  An empty list or a dict without keys: \<^verbatim>\<open>for d in data\<close> runs no round over it.
\<close>

fun empty_data :: "pdata \<Rightarrow> bool" where
  "empty_data (DepthList ds) = (ds = [])"
| "empty_data (DepthDict dd) =
     (order_book dd = None \<and> dd_delete dd = None \<and> dd_update dd = None \<and>
      dd_insert dd = None)"
| "empty_data (TickDict d) =
     (last_price_e4 (tf d) = None \<and> volume_24h (tf d) = None \<and>
      volume_24h_e8 (tf d) = None \<and> updated_at (tf d) = None \<and> td_update d = None)"
| "empty_data (OrderList ds) = (ds = [])"
| "empty_data (TradeList ds) = (ds = [])"
| "empty_data (PositionList ds) = (ds = [])"
| "empty_data (AccountList ds) = (ds = [])"

section \<open>State\<close>

record SubscribeRequest =
  sr_symbol :: string
  sr_exchange :: string

text \<open>The bound methods stored in the \<^verbatim>\<open>callbacks\<close> table.\<close>

datatype handler =
  H_on_tick | H_on_depth | H_on_order | H_on_trade | H_on_position | H_on_account

text \<open>A frame handed to \<^verbatim>\<open>send_packet\<close>.\<close>

record frame =
  fr_op :: string
  fr_args :: "string list"

type_synonym book = "(rat, level) dict"

text \<open>
  The fields of \<^verbatim>\<open>BybitWebsocketApi\<close> and of \<^verbatim>\<open>BybitPublicWebsocketApi\<close>, and the
  frames sent so far. \<^verbatim>\<open>subscribed\<close> is iterated, so it keeps its order.
\<close>

record ws_api =
  callbacks :: "string \<rightharpoonup> handler"
  ticks :: "string \<rightharpoonup> TickData"
  subscribed :: "(string, SubscribeRequest) dict"
  symbol_bids :: "string \<rightharpoonup> book"
  symbol_asks :: "string \<rightharpoonup> book"
  sent :: "frame list"

text \<open>A request queued with \<^verbatim>\<open>add_request\<close> by \<^verbatim>\<open>query_order\<close>.\<close>

record order_list_request =
  rq_path :: string
  rq_symbol :: string
  rq_limit :: int
  rq_page :: int

record LocalOrderManager =
  local_sys_orderid_map :: "string \<rightharpoonup> string"
  sys_local_orderid_map :: "string \<rightharpoonup> string"
  orders :: "string \<rightharpoonup> OrderData"
  pending :: "string set"

text \<open>
  What the two APIs share through \<^verbatim>\<open>self.gateway\<close>: the contract mode, the order
  manager, the events pushed to the framework (logs included), the text written to
  \<^verbatim>\<open>sys.stderr\<close> and the queue of REST requests.
\<close>

record gateway =
  usdt_base :: bool
  gateway_name :: string
  order_manager :: LocalOrderManager
  events :: "event list"
  stderr :: "(exception_type \<times> string) list"
  requests :: "order_list_request list"

section \<open>The order book: \<^verbatim>\<open>on_depth\<close>\<close>

text \<open>
  The loop over \<^verbatim>\<open>data["delete"]\<close>. The books reached when \<^verbatim>\<open>pop\<close> raises are returned
  with the error: the levels popped before it stay popped.
\<close>

fun pop_levels :: "level list \<Rightarrow> book \<Rightarrow> book \<Rightarrow> error option \<times> book \<times> book" where
  "pop_levels [] bids asks = (None, bids, asks)"
| "pop_levels (d # ds) bids asks =
     (if lv_side d = ''Buy'' then
        (case dict_pop (lv_price d) bids of
           Inl e \<Rightarrow> (Some e, bids, asks)
         | Inr bids' \<Rightarrow> pop_levels ds bids' asks)
      else
        (case dict_pop (lv_price d) asks of
           Inl e \<Rightarrow> (Some e, bids, asks)
         | Inr asks' \<Rightarrow> pop_levels ds bids asks'))"

text \<open>The loop that stores each entry under its price, used for snapshots and upserts.\<close>

fun put_levels :: "level list \<Rightarrow> book \<Rightarrow> book \<Rightarrow> book \<times> book" where
  "put_levels [] bids asks = (bids, asks)"
| "put_levels (d # ds) bids asks =
     (if lv_side d = ''Buy'' then put_levels ds (AList.update (lv_price d) d bids) asks
      else put_levels ds bids (AList.update (lv_price d) d asks))"

text \<open>The \<^verbatim>\<open>else\<close> branch of \<^verbatim>\<open>on_depth\<close>: deletes, then updates and inserts.\<close>

definition apply_delta :: "depth_dict \<Rightarrow> book \<Rightarrow> book \<Rightarrow> error option \<times> book \<times> book" where
  "apply_delta dd bids asks =
     (case dd_delete dd of
        None \<Rightarrow> (Some KeyError, bids, asks)
      | Some dels \<Rightarrow>
          (case pop_levels dels bids asks of
             (Some e, bids1, asks1) \<Rightarrow> (Some e, bids1, asks1)
           | (None, bids1, asks1) \<Rightarrow>
               (case dd_update dd of
                  None \<Rightarrow> (Some KeyError, bids1, asks1)
                | Some ups \<Rightarrow>
                    (case dd_insert dd of
                       None \<Rightarrow> (Some KeyError, bids1, asks1)
                     | Some ins \<Rightarrow>
                         (case put_levels (ups @ ins) bids1 asks1 of
                            (bids2, asks2) \<Rightarrow> (None, bids2, asks2))))))"

text \<open>
  The loop \<^verbatim>\<open>for i in range(5)\<close>. \<^verbatim>\<open>bid_keys[i]\<close> and \<^verbatim>\<open>ask_keys[i]\<close> raise
  \<^verbatim>\<open>IndexError\<close> past the end of the key lists; the attributes set in earlier rounds
  stay set.
\<close>

fun depth_loop ::
  "nat list \<Rightarrow> rat list \<Rightarrow> rat list \<Rightarrow> book \<Rightarrow> book \<Rightarrow> TickData \<Rightarrow> error option \<times> TickData"
where
  "depth_loop [] bid_keys ask_keys bids asks tick = (None, tick)"
| "depth_loop (i # is) bid_keys ask_keys bids asks tick =
     (case list_get bid_keys i of
        Inl e \<Rightarrow> (Some e, tick)
      | Inr bp \<Rightarrow>
     (case dict_get bids bp of
        Inl e \<Rightarrow> (Some e, tick)
      | Inr bid_data \<Rightarrow>
     (case list_get ask_keys i of
        Inl e \<Rightarrow> (Some e, tick)
      | Inr ap \<Rightarrow>
     (case dict_get asks ap of
        Inl e \<Rightarrow> (Some e, tick)
      | Inr ask_data \<Rightarrow>
          depth_loop is bid_keys ask_keys bids asks
            (tick\<lparr>bid_price := (bid_price tick)[i := bp],
                  bid_volume := (bid_volume tick)[i := lv_size bid_data],
                  ask_price := (ask_price tick)[i := ap],
                  ask_volume := (ask_volume tick)[i := lv_size ask_data]\<rparr>)))))"

text \<open>\<^verbatim>\<open>symbol = topic.replace("orderBookL2_25.", "")\<close>\<close>

definition book_symbol :: "string \<Rightarrow> string" where
  "book_symbol tp = str_remove ''orderBookL2_25.'' tp"

text \<open>\<^verbatim>\<open>d.setdefault(symbol, {})\<close>: the book of the symbol, empty when there is none yet.\<close>

definition setdefault_book :: "(string \<rightharpoonup> book) \<Rightarrow> string \<Rightarrow> book" where
  "setdefault_book m symbol = (case m symbol of None \<Rightarrow> [] | Some b \<Rightarrow> b)"

definition store_books :: "string \<Rightarrow> book \<Rightarrow> book \<Rightarrow> ws_api \<Rightarrow> ws_api" where
  "store_books symbol bids asks w =
     w\<lparr>symbol_bids := (symbol_bids w)(symbol \<mapsto> bids),
       symbol_asks := (symbol_asks w)(symbol \<mapsto> asks)\<rparr>"

text \<open>
  The part of \<^verbatim>\<open>on_depth\<close> that the two classes share word for word: from
  \<^verbatim>\<open>bid_keys = list(bids.keys())\<close> to the end of the \<^verbatim>\<open>for\<close> loop. The books are
  already stored when it runs, whatever happens in it.
\<close>

definition extract_depth :: "book \<Rightarrow> book \<Rightarrow> TickData \<Rightarrow> error option \<times> TickData" where
  "extract_depth bids asks tick =
     depth_loop [0..<5] (rev (sort (map fst bids))) (sort (map fst asks)) bids asks tick"

text \<open>
  The book update of \<^verbatim>\<open>BybitWebsocketApi.on_depth\<close>: a snapshot's data is a list, read
  by \<^verbatim>\<open>for d in data\<close>.
\<close>

definition ws_update_books :: "packet \<Rightarrow> book \<Rightarrow> book \<Rightarrow> error option \<times> book \<times> book" where
  "ws_update_books pk bids asks =
     (if ptype pk = ''snapshot'' then
        (case pk_data pk of
           DepthList ds \<Rightarrow> (case put_levels ds bids asks of (b, a) \<Rightarrow> (None, b, a))
         | d \<Rightarrow> if empty_data d then (None, bids, asks) else (Some TypeError, bids, asks))
      else
        (case pk_data pk of
           DepthDict dd \<Rightarrow> apply_delta dd bids asks
         | _ \<Rightarrow> (Some TypeError, bids, asks)))"

text \<open>
  The book update of \<^verbatim>\<open>BybitPublicWebsocketApi.on_depth\<close>: a snapshot's levels are under
  \<^verbatim>\<open>data["order_book"]\<close>.
\<close>

definition public_update_books :: "packet \<Rightarrow> book \<Rightarrow> book \<Rightarrow> error option \<times> book \<times> book" where
  "public_update_books pk bids asks =
     (if ptype pk = ''snapshot'' then
        (case pk_data pk of
           DepthDict dd \<Rightarrow>
             (case order_book dd of
                None \<Rightarrow> (Some KeyError, bids, asks)
              | Some ds \<Rightarrow> (case put_levels ds bids asks of (b, a) \<Rightarrow> (None, b, a)))
         | _ \<Rightarrow> (Some TypeError, bids, asks))
      else
        (case pk_data pk of
           DepthDict dd \<Rightarrow> apply_delta dd bids asks
         | _ \<Rightarrow> (Some TypeError, bids, asks)))"

definition set_tick :: "string \<Rightarrow> TickData \<Rightarrow> ws_api \<Rightarrow> ws_api" where
  "set_tick symbol tick w = w\<lparr>ticks := (ticks w)(symbol \<mapsto> tick)\<rparr>"

text \<open>
  \<^verbatim>\<open>datetime.fromtimestamp(ts)\<close> raises for a time stamp outside the years 1 to 9999
  (\<^verbatim>\<open>ValueError\<close>, or \<^verbatim>\<open>OverflowError\<close> where the platform gives up first; the model
  reports \<^verbatim>\<open>ValueError\<close>). The bounds are those of UTC; the local time zone moves them
  by less than a day. Within them, \<^verbatim>\<open>astimezone(UTC_TZ)\<close> gives back the instant \<open>ts\<close>.
\<close>

definition fromtimestamp :: "rat \<Rightarrow> error + datetime" where
  "fromtimestamp ts =
     (if - 62135596800 \<le> ts \<and> ts < 253402300800 then Inr ts else Inl ValueError)"

definition BybitWebsocketApi_on_depth ::
  "packet \<Rightarrow> ws_api \<Rightarrow> gateway \<Rightarrow> error option \<times> ws_api \<times> gateway"
where
  "BybitWebsocketApi_on_depth pk w g =
     (case topic pk of
        None \<Rightarrow> (Some KeyError, w, g)
      | Some tp \<Rightarrow>
          let symbol = book_symbol tp in
          (case ticks w symbol of
             None \<Rightarrow> (Some KeyError, w, g)
           | Some tick \<Rightarrow>
               let bids = setdefault_book (symbol_bids w) symbol;
                   asks = setdefault_book (symbol_asks w) symbol
               in
               (case ws_update_books pk bids asks of
                  (Some e, bids1, asks1) \<Rightarrow> (Some e, store_books symbol bids1 asks1 w, g)
                | (None, bids1, asks1) \<Rightarrow>
                    let w1 = store_books symbol bids1 asks1 w in
                    (case extract_depth bids1 asks1 tick of
                       (Some e, tick1) \<Rightarrow> (Some e, set_tick symbol tick1 w1, g)
                     | (None, tick1) \<Rightarrow>
                         (case py_div (timestamp_e6 pk) 1000000 of
                            Inl e \<Rightarrow> (Some e, set_tick symbol tick1 w1, g)
                          | Inr ts \<Rightarrow>
                              (case fromtimestamp ts of
                                 Inl e \<Rightarrow> (Some e, set_tick symbol tick1 w1, g)
                               | Inr dt \<Rightarrow>
                                   let tick2 = tick1\<lparr>tk_datetime := dt\<rparr> in
                                   (None, set_tick symbol tick2 w1,
                                    g\<lparr>events := events g @ [OnTick tick2]\<rparr>)))))))"

text \<open>
  \<^verbatim>\<open>int(packet["timestamp_e6"][:10])\<close>: only a string can be sliced. A number of at
  most ten characters is always within the range of \<^verbatim>\<open>datetime.fromtimestamp\<close>.
\<close>

definition timestamp_seconds :: "jval \<Rightarrow> error + int" where
  "timestamp_seconds v =
     (case v of JStr s \<Rightarrow> int_of_str (take 10 s) | _ \<Rightarrow> Inl TypeError)"

definition BybitPublicWebsocketApi_on_depth ::
  "packet \<Rightarrow> ws_api \<Rightarrow> gateway \<Rightarrow> error option \<times> ws_api \<times> gateway"
where
  "BybitPublicWebsocketApi_on_depth pk w g =
     (case topic pk of
        None \<Rightarrow> (Some KeyError, w, g)
      | Some tp \<Rightarrow>
          (case timestamp_seconds (timestamp_e6 pk) of
             Inl e \<Rightarrow> (Some e, w, g)
           | Inr ts \<Rightarrow>
               let symbol = book_symbol tp in
               (case ticks w symbol of
                  None \<Rightarrow> (Some KeyError, w, g)
                | Some tick \<Rightarrow>
                    let bids = setdefault_book (symbol_bids w) symbol;
                        asks = setdefault_book (symbol_asks w) symbol
                    in
                    (case public_update_books pk bids asks of
                       (Some e, bids1, asks1) \<Rightarrow> (Some e, store_books symbol bids1 asks1 w, g)
                     | (None, bids1, asks1) \<Rightarrow>
                         let w1 = store_books symbol bids1 asks1 w in
                         (case extract_depth bids1 asks1 tick of
                            (Some e, tick1) \<Rightarrow> (Some e, set_tick symbol tick1 w1, g)
                          | (None, tick1) \<Rightarrow>
                              let tick2 = tick1\<lparr>tk_datetime := of_int ts\<rparr> in
                              (None, set_tick symbol tick2 w1,
                               g\<lparr>events := events g @ [OnTick tick2]\<rparr>))))))"

subsection \<open>Vocabulary for the order book\<close>

text \<open>
  The entries of a packet list that go to the bid book (side \<^verbatim>\<open>"Buy"\<close>) and to the ask
  book (any other side), as pairs of price and record, in packet order.
\<close>

definition buys :: "level list \<Rightarrow> (rat \<times> level) list" where
  "buys ds = map (\<lambda>d. (lv_price d, d)) (filter (\<lambda>d. lv_side d = ''Buy'') ds)"

definition sells :: "level list \<Rightarrow> (rat \<times> level) list" where
  "sells ds = map (\<lambda>d. (lv_price d, d)) (filter (\<lambda>d. lv_side d \<noteq> ''Buy'') ds)"

text \<open>
  Two connections hold the same books when, for every symbol, the bid dicts are equal and
  the ask dicts are equal. Python compares dicts by their keys and values, not by the
  order of insertion.
\<close>

definition same_books :: "ws_api \<Rightarrow> ws_api \<Rightarrow> bool" where
  "same_books w1 w2 \<longleftrightarrow>
     (\<forall>s. map_option map_of (symbol_bids w1 s) = map_option map_of (symbol_bids w2 s) \<and>
          map_option map_of (symbol_asks w1 s) = map_option map_of (symbol_asks w2 s))"

text \<open>The two implementations of \<^verbatim>\<open>on_depth\<close>.\<close>

definition is_on_depth ::
  "(packet \<Rightarrow> ws_api \<Rightarrow> gateway \<Rightarrow> error option \<times> ws_api \<times> gateway) \<Rightarrow> bool"
where
  "is_on_depth od \<longleftrightarrow>
     od = BybitWebsocketApi_on_depth \<or> od = BybitPublicWebsocketApi_on_depth"

section \<open>Ticks: \<^verbatim>\<open>on_tick\<close>\<close>

text \<open>\<^verbatim>\<open>gateway.write_log(msg)\<close> pushes a log event.\<close>

definition write_log :: "log_msg \<Rightarrow> gateway \<Rightarrow> gateway" where
  "write_log msg g = g\<lparr>events := events g @ [OnLog msg]\<rparr>"

text \<open>\<^verbatim>\<open>symbol = topic.replace("instrument_info.100ms.", "")\<close>\<close>

definition tick_symbol :: "string \<Rightarrow> string" where
  "tick_symbol tp = str_remove ''instrument_info.100ms.'' tp"

text \<open>
  How the \<^verbatim>\<open>if\<close>/\<^verbatim>\<open>else\<close> block of \<^verbatim>\<open>on_tick\<close> ends: it falls through to the code
  after it, it executes \<^verbatim>\<open>return\<close>, or a subscript or a conversion raises. The tick is the
  cached object itself, so what was assigned to it before stays assigned.
\<close>

datatype flow = Continue | Return | Raise error

text \<open>\<^verbatim>\<open>BybitWebsocketApi.on_tick\<close>, the branch for a snapshot.\<close>

definition ws_tick_snapshot :: "tick_fields \<Rightarrow> TickData \<Rightarrow> flow \<times> TickData" where
  "ws_tick_snapshot d tick =
     (case last_price_e4 d of
        None \<Rightarrow> (Raise KeyError, tick)
      | Some v \<Rightarrow>
          if \<not> truthy v then (Return, tick)
          else
            (case py_div v 10000 of
               Inl e \<Rightarrow> (Raise e, tick)
             | Inr p \<Rightarrow>
                 let tick1 = tick\<lparr>last_price := p\<rparr> in
                 (case volume_24h d of
                    None \<Rightarrow> (Raise KeyError, tick1)
                  | Some vol \<Rightarrow> (Continue, tick1\<lparr>volume := vol\<rparr>))))"

text \<open>\<^verbatim>\<open>BybitWebsocketApi.on_tick\<close>, the branch for an update.\<close>

definition ws_tick_update :: "tick_dict \<Rightarrow> TickData \<Rightarrow> flow \<times> TickData" where
  "ws_tick_update d tick =
     (case td_update d of
        None \<Rightarrow> (Raise KeyError, tick)
      | Some [] \<Rightarrow> (Raise IndexError, tick)
      | Some (update # _) \<Rightarrow>
          (case (case last_price_e4 update of
                   None \<Rightarrow> (Continue, tick)
                 | Some v \<Rightarrow>
                     if \<not> truthy v then (Return, tick)
                     else
                       (case py_div v 10000 of
                          Inl e \<Rightarrow> (Raise e, tick)
                        | Inr p \<Rightarrow> (Continue, tick\<lparr>last_price := p\<rparr>))) of
             (Continue, tick1) \<Rightarrow>
               (case volume_24h update of
                  None \<Rightarrow> (Continue, tick1)
                | Some vol \<Rightarrow> (Continue, tick1\<lparr>volume := vol\<rparr>))
           | (fl, tick1) \<Rightarrow> (fl, tick1)))"

definition BybitWebsocketApi_on_tick ::
  "packet \<Rightarrow> ws_api \<Rightarrow> gateway \<Rightarrow> error option \<times> ws_api \<times> gateway"
where
  "BybitWebsocketApi_on_tick pk w g =
     (case topic pk of
        None \<Rightarrow> (Some KeyError, w, g)
      | Some tp \<Rightarrow>
          let symbol = tick_symbol tp in
          (case ticks w symbol of
             None \<Rightarrow> (Some KeyError, w, g)
           | Some tick \<Rightarrow>
               (case pk_data pk of
                  TickDict d \<Rightarrow>
                    (case (if ptype pk = ''snapshot'' then ws_tick_snapshot (tf d) tick
                           else ws_tick_update d tick) of
                       (Raise e, tick1) \<Rightarrow> (Some e, set_tick symbol tick1 w, g)
                     | (Return, tick1) \<Rightarrow> (None, set_tick symbol tick1 w, g)
                     | (Continue, tick1) \<Rightarrow>
                         (case updated_at (tf d) of
                            None \<Rightarrow> (Some KeyError, set_tick symbol tick1 w, g)
                          | Some dt \<Rightarrow>
                              let tick2 = tick1\<lparr>tk_datetime := dt\<rparr> in
                              (None, set_tick symbol tick2 w,
                               g\<lparr>events := events g @ [OnTick tick2]\<rparr>)))
                | _ \<Rightarrow> (Some TypeError, w, g))))"

text \<open>
  \<^verbatim>\<open>BybitPublicWebsocketApi.on_tick\<close> converts with \<^verbatim>\<open>int(...)\<close> before it divides, and
  reads the volume from \<^verbatim>\<open>volume_24h_e8\<close>.
\<close>

definition int_div :: "jval \<Rightarrow> rat \<Rightarrow> error + rat" where
  "int_div v k = (case py_int v of Inl e \<Rightarrow> Inl e | Inr n \<Rightarrow> Inr (of_int n / k))"

definition public_tick_snapshot :: "tick_fields \<Rightarrow> TickData \<Rightarrow> flow \<times> TickData" where
  "public_tick_snapshot d tick =
     (case last_price_e4 d of
        None \<Rightarrow> (Raise KeyError, tick)
      | Some v \<Rightarrow>
          if \<not> truthy v then (Return, tick)
          else
            (case int_div v 10000 of
               Inl e \<Rightarrow> (Raise e, tick)
             | Inr p \<Rightarrow>
                 let tick1 = tick\<lparr>last_price := p\<rparr> in
                 (case volume_24h_e8 d of
                    None \<Rightarrow> (Raise KeyError, tick1)
                  | Some vol \<Rightarrow>
                      (case int_div vol 100000000 of
                         Inl e \<Rightarrow> (Raise e, tick1)
                       | Inr x \<Rightarrow> (Continue, tick1\<lparr>volume := JFloat x\<rparr>)))))"

definition public_tick_update :: "tick_dict \<Rightarrow> TickData \<Rightarrow> flow \<times> TickData" where
  "public_tick_update d tick =
     (case td_update d of
        None \<Rightarrow> (Raise KeyError, tick)
      | Some [] \<Rightarrow> (Raise IndexError, tick)
      | Some (update # _) \<Rightarrow>
          (case (case last_price_e4 update of
                   None \<Rightarrow> (Continue, tick)
                 | Some v \<Rightarrow>
                     if \<not> truthy v then (Return, tick)
                     else
                       (case int_div v 10000 of
                          Inl e \<Rightarrow> (Raise e, tick)
                        | Inr p \<Rightarrow> (Continue, tick\<lparr>last_price := p\<rparr>))) of
             (Continue, tick1) \<Rightarrow>
               (case volume_24h_e8 update of
                  None \<Rightarrow> (Continue, tick1)
                | Some vol \<Rightarrow>
                    (case int_div vol 100000000 of
                       Inl e \<Rightarrow> (Raise e, tick1)
                     | Inr x \<Rightarrow> (Continue, tick1\<lparr>volume := JFloat x\<rparr>)))
           | (fl, tick1) \<Rightarrow> (fl, tick1)))"

text \<open>
  \<^verbatim>\<open>datetime.fromtimestamp(ts)\<close> is the local wall clock at \<open>ts\<close>, and
  \<^verbatim>\<open>replace(tzinfo=UTC_TZ)\<close> reads that wall clock as UTC: the instant moves by the offset
  of the local time zone, \<open>utcoffset ts\<close> seconds, which the functions below take as a
  parameter.
\<close>

definition fromtimestamp_as_utc :: "(int \<Rightarrow> int) \<Rightarrow> int \<Rightarrow> int" where
  "fromtimestamp_as_utc utcoffset ts = ts + utcoffset ts"

definition BybitPublicWebsocketApi_on_tick ::
  "(int \<Rightarrow> int) \<Rightarrow> packet \<Rightarrow> ws_api \<Rightarrow> gateway \<Rightarrow> error option \<times> ws_api \<times> gateway"
where
  "BybitPublicWebsocketApi_on_tick utcoffset pk w g =
     (case topic pk of
        None \<Rightarrow> (Some KeyError, w, g)
      | Some tp \<Rightarrow>
          (case timestamp_seconds (timestamp_e6 pk) of
             Inl e \<Rightarrow> (Some e, w, g)
           | Inr ts \<Rightarrow>
               let symbol = tick_symbol tp in
               (case ticks w symbol of
                  None \<Rightarrow> (Some KeyError, w, g)
                | Some tick \<Rightarrow>
                    (case pk_data pk of
                       TickDict d \<Rightarrow>
                         (case (if ptype pk = ''snapshot'' then public_tick_snapshot (tf d) tick
                                else public_tick_update d tick) of
                            (Raise e, tick1) \<Rightarrow> (Some e, set_tick symbol tick1 w, g)
                          | (Return, tick1) \<Rightarrow> (None, set_tick symbol tick1 w, g)
                          | (Continue, tick1) \<Rightarrow>
                              let tick2 = tick1\<lparr>tk_datetime :=
                                    of_int (fromtimestamp_as_utc utcoffset ts)\<rparr> in
                              (None, set_tick symbol tick2 w,
                               g\<lparr>events := events g @ [OnTick tick2]\<rparr>))
                     | _ \<Rightarrow> (Some TypeError, w, g)))))"

text \<open>
  The value of \<^verbatim>\<open>last_price_e4\<close> that \<^verbatim>\<open>on_tick\<close> tests: that of the data for a
  snapshot, that of the first entry of \<^verbatim>\<open>data["update"]\<close> otherwise; \<open>None\<close> when the
  packet carries no such field.
\<close>

definition tested_price :: "packet \<Rightarrow> jval option" where
  "tested_price pk =
     (case pk_data pk of
        TickDict d \<Rightarrow>
          if ptype pk = ''snapshot'' then last_price_e4 (tf d)
          else (case td_update d of Some (u # us) \<Rightarrow> last_price_e4 u | _ \<Rightarrow> None)
      | _ \<Rightarrow> None)"

text \<open>
  A value that is zero or empty: the number zero, \<^verbatim>\<open>None\<close>, the empty string, or a
  string that \<^verbatim>\<open>int(...)\<close> reads as zero, such as \<^verbatim>\<open>"0"\<close>. The public feed sends its
  numbers as strings.
\<close>

definition zero_or_empty :: "jval \<Rightarrow> bool" where
  "zero_or_empty v =
     (case v of
        JNull \<Rightarrow> True
      | JInt n \<Rightarrow> n = 0
      | JFloat r \<Rightarrow> r = 0
      | JStr s \<Rightarrow> s = [] \<or> int_of_str s = Inr 0)"

text \<open>An instrument packet whose last price is zero or empty.\<close>

definition zero_price_packet :: "packet \<Rightarrow> bool" where
  "zero_price_packet pk =
     (case tested_price pk of None \<Rightarrow> False | Some v \<Rightarrow> zero_or_empty v)"

text \<open>
  An instrument packet whose last price passes the test \<^verbatim>\<open>not v\<close> of the source: the
  values above except the strings that are not empty.
\<close>

definition falsy_price_packet :: "packet \<Rightarrow> bool" where
  "falsy_price_packet pk =
     (case tested_price pk of None \<Rightarrow> False | Some v \<Rightarrow> \<not> truthy v)"

section \<open>Tables\<close>

definition STATUS_BYBIT2VT :: "(string, Status) dict" where
  "STATUS_BYBIT2VT =
     [(''Created'', NOTTRADED), (''New'', NOTTRADED), (''PartiallyFilled'', PARTTRADED),
      (''Filled'', ALLTRADED), (''Cancelled'', CANCELLED), (''Rejected'', REJECTED)]"

definition DIRECTION_VT2BYBIT :: "(Direction, string) dict" where
  "DIRECTION_VT2BYBIT = [(LONG, ''Buy''), (SHORT, ''Sell'')]"

definition DIRECTION_BYBIT2VT :: "(string, Direction) dict" where
  "DIRECTION_BYBIT2VT = map (\<lambda>(k, v). (v, k)) DIRECTION_VT2BYBIT"

definition ORDER_TYPE_VT2BYBIT :: "(OrderType, string) dict" where
  "ORDER_TYPE_VT2BYBIT = [(LIMIT, ''Limit''), (MARKET, ''Market'')]"

definition ORDER_TYPE_BYBIT2VT :: "(string, OrderType) dict" where
  "ORDER_TYPE_BYBIT2VT = map (\<lambda>(k, v). (v, k)) ORDER_TYPE_VT2BYBIT"

definition symbols_usdt :: "string list" where
  "symbols_usdt = [''BTCUSDT'']"

definition symbols_inverse :: "string list" where
  "symbols_inverse = [''BTCUSD'', ''ETHUSD'', ''EOSUSD'', ''XRPUSD'']"

section \<open>The order manager\<close>

text \<open>
  \<^verbatim>\<open>LocalOrderManager\<close> is imported from \<^verbatim>\<open>vnpy.trader.gateway\<close>, which is not among the
  sources. The three methods the gateway calls on it are modelled from the spec, where the
  manager is the Identity Map (sections 3, 4.3 and 7): \<^verbatim>\<open>update_orderid_map\<close> is
  \<^verbatim>\<open>bind\<close>, \<^verbatim>\<open>get_order_with_sys_orderid\<close> is the lookup of \<^verbatim>\<open>resolveOrCreate\<close>, and
  \<^verbatim>\<open>on_order\<close> records a LocalOrder and hands it to the framework as \<^verbatim>\<open>onOrder\<close>.
\<close>

text \<open>
  Modelled from the spec: \<^verbatim>\<open>bind\<close> fails with AlreadyBound when the local id already maps
  to a different venue id.
\<close>

definition already_bound :: "LocalOrderManager \<Rightarrow> string \<Rightarrow> string \<Rightarrow> bool" where
  "already_bound om local_orderid sys_orderid =
     (case local_sys_orderid_map om local_orderid of
        None \<Rightarrow> False
      | Some v \<Rightarrow> v \<noteq> sys_orderid)"

text \<open>
  Modelled from the spec: an IdentityConflict is a venue id that is already bound to a
  different local id.
\<close>

definition identity_conflict :: "LocalOrderManager \<Rightarrow> string \<Rightarrow> string \<Rightarrow> bool" where
  "identity_conflict om local_orderid sys_orderid =
     (case sys_local_orderid_map om sys_orderid of
        None \<Rightarrow> False
      | Some l \<Rightarrow> l \<noteq> local_orderid)"

text \<open>
  Modelled from the spec: \<^verbatim>\<open>LocalOrderManager.update_orderid_map\<close>, the spec's
  \<^verbatim>\<open>bind(local_id, venue_id)\<close>. AlreadyBound and IdentityConflict are logged and are not
  fatal; the existing binding is preserved. Otherwise the pair is bound in both directions
  and the local id no longer awaits a venue id.
\<close>

definition update_orderid_map :: "string \<Rightarrow> string \<Rightarrow> gateway \<Rightarrow> gateway" where
  "update_orderid_map local_orderid sys_orderid g =
     (let om = order_manager g in
      if already_bound om local_orderid sys_orderid then
        write_log (Log_already_bound local_orderid sys_orderid) g
      else if identity_conflict om local_orderid sys_orderid then
        write_log (Log_identity_conflict sys_orderid local_orderid) g
      else
        g\<lparr>order_manager := om
            \<lparr>local_sys_orderid_map := (local_sys_orderid_map om)(local_orderid \<mapsto> sys_orderid),
             sys_local_orderid_map := (sys_local_orderid_map om)(sys_orderid \<mapsto> local_orderid),
             pending := pending om - {local_orderid}\<rparr>\<rparr>)"

text \<open>
  Modelled from the spec: \<^verbatim>\<open>LocalOrderManager.get_order_with_sys_orderid\<close>. If the venue
  id is bound, the existing LocalOrder of its local id is returned, else \<^verbatim>\<open>None\<close>. The
  order is handed out as a value: assigning to its fields changes the record of the
  manager only when \<^verbatim>\<open>on_order\<close> stores it.
\<close>

definition get_order_with_sys_orderid :: "string \<Rightarrow> gateway \<Rightarrow> OrderData option" where
  "get_order_with_sys_orderid sys_orderid g =
     (case sys_local_orderid_map (order_manager g) sys_orderid of
        None \<Rightarrow> None
      | Some local_orderid \<Rightarrow> orders (order_manager g) local_orderid)"

text \<open>
  Modelled from the spec: \<^verbatim>\<open>LocalOrderManager.on_order\<close>. The order becomes the record of
  its local id and is pushed to the framework as an order event.
\<close>

definition LocalOrderManager_on_order :: "OrderData \<Rightarrow> gateway \<Rightarrow> gateway" where
  "LocalOrderManager_on_order order g =
     g\<lparr>order_manager := (order_manager g)
          \<lparr>orders := (orders (order_manager g))(orderid order \<mapsto> order)\<rparr>,
       events := events g @ [OnOrder order]\<rparr>"

section \<open>Private topics: \<^verbatim>\<open>on_order\<close>, \<^verbatim>\<open>on_trade\<close>, \<^verbatim>\<open>on_position\<close>, \<^verbatim>\<open>on_account\<close>\<close>

text \<open>
  \<^verbatim>\<open>local_orderid = d["order_link_id"]\<close>, replaced by the venue id when it is empty.
\<close>

definition local_orderid_of :: "string \<Rightarrow> string \<Rightarrow> string" where
  "local_orderid_of order_link_id sys_orderid =
     (if order_link_id = [] then sys_orderid else order_link_id)"

text \<open>
  The \<^verbatim>\<open>OrderData(...)\<close> built from a venue record. A string that is missing from one of
  the three tables raises \<^verbatim>\<open>KeyError\<close>.
\<close>

definition make_order ::
  "string \<Rightarrow> string \<Rightarrow> datetime \<Rightarrow> order_push \<Rightarrow> error + OrderData" where
  "make_order gw_name local_orderid dt d =
     (case dict_get ORDER_TYPE_BYBIT2VT (op_order_type d) of
        Inl e \<Rightarrow> Inl e
      | Inr ty \<Rightarrow>
     (case dict_get DIRECTION_BYBIT2VT (op_side d) of
        Inl e \<Rightarrow> Inl e
      | Inr dir \<Rightarrow>
     (case dict_get STATUS_BYBIT2VT (op_order_status d) of
        Inl e \<Rightarrow> Inl e
      | Inr st \<Rightarrow>
          Inr \<lparr>od_symbol = op_symbol d, orderid = local_orderid, od_type = ty,
               od_direction = dir, od_price = op_price d, od_volume = op_qty d,
               traded = op_cum_exec_qty d, status = st, od_datetime = dt,
               od_gateway_name = gw_name\<rparr>)))"

text \<open>The body of the loop of \<^verbatim>\<open>BybitWebsocketApi.on_order\<close>.\<close>

definition on_order_entry :: "order_push \<Rightarrow> gateway \<Rightarrow> error option \<times> gateway" where
  "on_order_entry d g =
     (let sys_orderid = op_order_id d in
      case get_order_with_sys_orderid sys_orderid g of
        Some order \<Rightarrow>
          (case dict_get STATUS_BYBIT2VT (op_order_status d) of
             Inl e \<Rightarrow> (Some e, g)
           | Inr st \<Rightarrow>
               (None, LocalOrderManager_on_order
                  (order\<lparr>traded := op_cum_exec_qty d, status := st,
                         od_datetime := op_timestamp d\<rparr>) g))
      | None \<Rightarrow>
          let local_orderid = local_orderid_of (op_order_link_id d) sys_orderid;
              g1 = update_orderid_map local_orderid sys_orderid g
          in
          (case make_order (gateway_name g) local_orderid (op_timestamp d) d of
             Inl e \<Rightarrow> (Some e, g1)
           | Inr order \<Rightarrow> (None, LocalOrderManager_on_order order g1)))"

text \<open>A \<^verbatim>\<open>for\<close> loop over the entries of a packet stops at the first exception.\<close>

fun for_each :: "('a \<Rightarrow> gateway \<Rightarrow> error option \<times> gateway) \<Rightarrow> 'a list \<Rightarrow> gateway \<Rightarrow>
    error option \<times> gateway" where
  "for_each body [] g = (None, g)"
| "for_each body (d # ds) g =
     (case body d g of
        (Some e, g1) \<Rightarrow> (Some e, g1)
      | (None, g1) \<Rightarrow> for_each body ds g1)"

definition BybitWebsocketApi_on_order ::
  "packet \<Rightarrow> ws_api \<Rightarrow> gateway \<Rightarrow> error option \<times> ws_api \<times> gateway"
where
  "BybitWebsocketApi_on_order pk w g =
     (case pk_data pk of
        OrderList ds \<Rightarrow> (case for_each on_order_entry ds g of (e, g1) \<Rightarrow> (e, w, g1))
      | d \<Rightarrow> if empty_data d then (None, w, g) else (Some TypeError, w, g))"

definition on_trade_entry :: "trade_push \<Rightarrow> gateway \<Rightarrow> error option \<times> gateway" where
  "on_trade_entry d g =
     (let order_id = local_orderid_of (tp_order_link_id d) (tp_order_id d) in
      case dict_get DIRECTION_BYBIT2VT (tp_side d) of
        Inl e \<Rightarrow> (Some e, g)
      | Inr dir \<Rightarrow>
          (None, g\<lparr>events := events g @
             [OnTrade \<lparr>td_symbol = tp_symbol d, td_orderid = order_id, tradeid = tp_exec_id d,
                td_direction = dir, td_price = tp_price d, td_volume = tp_exec_qty d,
                td_datetime = tp_trade_time d\<rparr>]\<rparr>))"

definition BybitWebsocketApi_on_trade ::
  "packet \<Rightarrow> ws_api \<Rightarrow> gateway \<Rightarrow> error option \<times> ws_api \<times> gateway"
where
  "BybitWebsocketApi_on_trade pk w g =
     (case pk_data pk of
        TradeList ds \<Rightarrow> (case for_each on_trade_entry ds g of (e, g1) \<Rightarrow> (e, w, g1))
      | d \<Rightarrow> if empty_data d then (None, w, g) else (Some TypeError, w, g))"

definition on_position_entry :: "position_push \<Rightarrow> gateway \<Rightarrow> error option \<times> gateway" where
  "on_position_entry d g =
     (let volume = (if pp_side d = ''Buy'' then pp_size d else - pp_size d) in
      (None, g\<lparr>events := events g @
         [OnPosition \<lparr>ps_symbol = pp_symbol d, ps_direction = NET, ps_volume = volume,
            ps_price = pp_entry_price d\<rparr>]\<rparr>))"

definition BybitWebsocketApi_on_position ::
  "packet \<Rightarrow> ws_api \<Rightarrow> gateway \<Rightarrow> error option \<times> ws_api \<times> gateway"
where
  "BybitWebsocketApi_on_position pk w g =
     (case pk_data pk of
        PositionList ds \<Rightarrow> (case for_each on_position_entry ds g of (e, g1) \<Rightarrow> (e, w, g1))
      | d \<Rightarrow> if empty_data d then (None, w, g) else (Some TypeError, w, g))"

definition on_account_entry :: "account_push \<Rightarrow> gateway \<Rightarrow> error option \<times> gateway" where
  "on_account_entry d g =
     (None, g\<lparr>events := events g @
        [OnAccount \<lparr>accountid = ''USDT'', balance = wallet_balance d,
           frozen = wallet_balance d - available_balance d\<rparr>]\<rparr>)"

definition BybitWebsocketApi_on_account ::
  "packet \<Rightarrow> ws_api \<Rightarrow> gateway \<Rightarrow> error option \<times> ws_api \<times> gateway"
where
  "BybitWebsocketApi_on_account pk w g =
     (case pk_data pk of
        AccountList ds \<Rightarrow> (case for_each on_account_entry ds g of (e, g1) \<Rightarrow> (e, w, g1))
      | d \<Rightarrow> if empty_data d then (None, w, g) else (Some TypeError, w, g))"

section \<open>The session: \<^verbatim>\<open>subscribe\<close>, \<^verbatim>\<open>on_login\<close>, \<^verbatim>\<open>on_packet\<close>\<close>

text \<open>
  \<^verbatim>\<open>subscribe_topic\<close> registers the callback and sends the subscribe frame.
  \<^verbatim>\<open>send_packet\<close> belongs to the transport; here it appends the frame to \<^const>\<open>sent\<close>.
\<close>

definition subscribe_topic :: "string \<Rightarrow> handler \<Rightarrow> ws_api \<Rightarrow> ws_api" where
  "subscribe_topic tp callback w =
     w\<lparr>callbacks := (callbacks w)(tp \<mapsto> callback),
       sent := sent w @ [\<lparr>fr_op = ''subscribe'', fr_args = [tp]\<rparr>]\<rparr>"

text \<open>
  \<^verbatim>\<open>subscribe\<close>, the same in both classes. \<open>now\<close> is the reading of the clock; the fields
  of \<^verbatim>\<open>TickData\<close> that the constructor is not given start at zero.
\<close>

definition subscribe :: "datetime \<Rightarrow> string \<Rightarrow> SubscribeRequest \<Rightarrow> ws_api \<Rightarrow> ws_api" where
  "subscribe now gw_name req w =
     (let w1 = w\<lparr>subscribed := AList.update (sr_symbol req) req (subscribed w)\<rparr>;
          tick = \<lparr>tk_symbol = sr_symbol req, tk_exchange = sr_exchange req,
                  tk_name = sr_symbol req, tk_gateway_name = gw_name, tk_datetime = now,
                  last_price = 0, volume = JInt 0,
                  bid_price = replicate 5 0, bid_volume = replicate 5 0,
                  ask_price = replicate 5 0, ask_volume = replicate 5 0\<rparr>;
          w2 = w1\<lparr>ticks := (ticks w1)(sr_symbol req \<mapsto> tick)\<rparr>;
          w3 = subscribe_topic (''instrument_info.100ms.'' @ sr_symbol req) H_on_tick w2
      in subscribe_topic (''orderBookL2_25.'' @ sr_symbol req) H_on_depth w3)"

text \<open>
  \<^verbatim>\<open>for req in self.subscribed.values(): self.subscribe(req)\<close>. The loop walks the live
  dict while \<^verbatim>\<open>subscribe\<close> assigns into it; when an assignment adds a key, the next step
  of the iterator raises \<^verbatim>\<open>RuntimeError\<close>.
\<close>

function resubscribe ::
  "datetime \<Rightarrow> string \<Rightarrow> nat \<Rightarrow> ws_api \<Rightarrow> error option \<times> ws_api" where
  "resubscribe now gw_name i w =
     (if i < length (subscribed w) then
        let w1 = subscribe now gw_name (snd (subscribed w ! i)) w in
        if length (subscribed w1) = length (subscribed w)
        then resubscribe now gw_name (Suc i) w1
        else (Some RuntimeError, w1)
      else (None, w))"
  by pat_completeness auto
termination
  by (relation "measure (\<lambda>(now, gw_name, i, w). length (subscribed w) - i)") auto

declare resubscribe.simps [simp del]

text \<open>\<^verbatim>\<open>packet.get("success", False)\<close>, tested for truth.\<close>

definition login_success :: "packet \<Rightarrow> bool" where
  "login_success pk = (case success pk of None \<Rightarrow> False | Some v \<Rightarrow> truthy v)"

definition on_login ::
  "datetime \<Rightarrow> packet \<Rightarrow> ws_api \<Rightarrow> gateway \<Rightarrow> error option \<times> ws_api \<times> gateway"
where
  "on_login now pk w g =
     (if login_success pk then
        let g1 = write_log Log_login_ok g;
            w1 = subscribe_topic ''order'' H_on_order w;
            w2 = subscribe_topic ''execution'' H_on_trade w1;
            w3 = subscribe_topic ''position'' H_on_position w2;
            w4 = (if usdt_base g then subscribe_topic ''wallet'' H_on_account w3 else w3)
        in (case resubscribe now (gateway_name g) 0 w4 of (e, w5) \<Rightarrow> (e, w5, g1))
      else (None, w, write_log Log_login_failed g))"

text \<open>Calling the bound method stored in \<^verbatim>\<open>callbacks\<close> of \<^verbatim>\<open>BybitWebsocketApi\<close>.\<close>

fun ws_callback ::
  "handler \<Rightarrow> packet \<Rightarrow> ws_api \<Rightarrow> gateway \<Rightarrow> error option \<times> ws_api \<times> gateway" where
  "ws_callback H_on_tick = BybitWebsocketApi_on_tick"
| "ws_callback H_on_depth = BybitWebsocketApi_on_depth"
| "ws_callback H_on_order = BybitWebsocketApi_on_order"
| "ws_callback H_on_trade = BybitWebsocketApi_on_trade"
| "ws_callback H_on_position = BybitWebsocketApi_on_position"
| "ws_callback H_on_account = BybitWebsocketApi_on_account"

definition BybitWebsocketApi_on_packet ::
  "datetime \<Rightarrow> packet \<Rightarrow> ws_api \<Rightarrow> gateway \<Rightarrow> error option \<times> ws_api \<times> gateway"
where
  "BybitWebsocketApi_on_packet now pk w g =
     (case topic pk of
        None \<Rightarrow>
          (case request_op pk of
             None \<Rightarrow> (Some KeyError, w, g)
           | Some op \<Rightarrow> if op = ''auth'' then on_login now pk w g else (None, w, g))
      | Some channel \<Rightarrow>
          (case callbacks w channel of
             None \<Rightarrow> (Some KeyError, w, g)
           | Some callback \<Rightarrow> ws_callback callback pk w g))"

text \<open>
  \<^verbatim>\<open>BybitPublicWebsocketApi\<close> has the two market data handlers only; its \<^verbatim>\<open>subscribe\<close>
  stores no other. It defines no \<^verbatim>\<open>on_login\<close>, so the call in its \<^verbatim>\<open>on_packet\<close> raises
  \<^verbatim>\<open>AttributeError\<close>.
\<close>

fun public_callback ::
  "(int \<Rightarrow> int) \<Rightarrow> handler \<Rightarrow> packet \<Rightarrow> ws_api \<Rightarrow> gateway \<Rightarrow>
     error option \<times> ws_api \<times> gateway" where
  "public_callback utcoffset H_on_tick pk w g = BybitPublicWebsocketApi_on_tick utcoffset pk w g"
| "public_callback utcoffset H_on_depth pk w g = BybitPublicWebsocketApi_on_depth pk w g"
| "public_callback utcoffset h pk w g = (Some AttributeError, w, g)"

definition BybitPublicWebsocketApi_on_packet ::
  "(int \<Rightarrow> int) \<Rightarrow> packet \<Rightarrow> ws_api \<Rightarrow> gateway \<Rightarrow> error option \<times> ws_api \<times> gateway"
where
  "BybitPublicWebsocketApi_on_packet utcoffset pk w g =
     (case topic pk of
        None \<Rightarrow>
          (case request_op pk of
             None \<Rightarrow> (Some KeyError, w, g)
           | Some op \<Rightarrow> if op = ''auth'' then (Some AttributeError, w, g) else (None, w, g))
      | Some channel \<Rightarrow>
          (case callbacks w channel of
             None \<Rightarrow> (Some KeyError, w, g)
           | Some callback \<Rightarrow> public_callback utcoffset callback pk w g))"


subsection \<open>Vocabulary for the session\<close>

definition subscribe_frame :: "string \<Rightarrow> frame" where
  "subscribe_frame tp = \<lparr>fr_op = ''subscribe'', fr_args = [tp]\<rparr>"

text \<open>The private topics \<^verbatim>\<open>on_login\<close> subscribes to, in the order of the source.\<close>

definition private_topics :: "bool \<Rightarrow> string list" where
  "private_topics usdt =
     [''order'', ''execution'', ''position''] @ (if usdt then [''wallet''] else [])"

text \<open>The two market data topics of a symbol, in the order \<^verbatim>\<open>subscribe\<close> sends them.\<close>

definition market_topics :: "string \<Rightarrow> string list" where
  "market_topics symbol = [''instrument_info.100ms.'' @ symbol, ''orderBookL2_25.'' @ symbol]"

definition has_prefix :: "string \<Rightarrow> string \<Rightarrow> bool" where
  "has_prefix p s \<longleftrightarrow> take (length p) s = p"

text \<open>A subscribe frame for a market data topic of some symbol.\<close>

definition market_frame :: "frame \<Rightarrow> bool" where
  "market_frame f \<longleftrightarrow>
     fr_op f = ''subscribe'' \<and>
     (case fr_args f of
        [tp] \<Rightarrow> has_prefix ''instrument_info.100ms.'' tp \<or> has_prefix ''orderBookL2_25.'' tp
      | _ \<Rightarrow> False)"

text \<open>
  The shape \<^verbatim>\<open>subscribe\<close> gives to \<^verbatim>\<open>subscribed\<close>: a dict (the keys are distinct) that
  holds each request under its own symbol.
\<close>

definition wf_subscribed :: "ws_api \<Rightarrow> bool" where
  "wf_subscribed w \<longleftrightarrow>
     distinct (map fst (subscribed w)) \<and>
     list_all (\<lambda>(k, req). k = sr_symbol req) (subscribed w)"


section \<open>REST callbacks\<close>

text \<open>The part of a decoded REST reply that \<^verbatim>\<open>check_error\<close> reads.\<close>

record rest_reply =
  ret_code :: int
  ret_msg :: string


record order_page =
  page_data :: "order_push list"
  current_page :: int
  last_page :: int

text \<open>
  \<^verbatim>\<open>data["result"]\<close> of an order list reply; \<open>None\<close> stands for a result that is
  \<^verbatim>\<open>null\<close> or empty.
\<close>

record query_order_reply = rest_reply +
  qo_result :: "order_page option"

text \<open>The request handed back to a callback; \<^verbatim>\<open>extra\<close> is the order it was sent for.\<close>

record Request =
  extra :: OrderData

definition check_error :: "api_name \<Rightarrow> 'a rest_reply_scheme \<Rightarrow> gateway \<Rightarrow> bool \<times> gateway" where
  "check_error name data g =
     (if ret_code data \<noteq> 0
      then (True, write_log (Log_check_error name (ret_code data) (ret_msg data)) g)
      else (False, g))"


text \<open>
  \<^verbatim>\<open>on_error\<close> logs the exception and writes its detail to \<^verbatim>\<open>sys.stderr\<close>.
\<close>

definition on_error :: "exception_type \<Rightarrow> string \<Rightarrow> gateway \<Rightarrow> gateway" where
  "on_error exception_type exception_value g =
     (let g1 = write_log (Log_exception exception_type exception_value) g
      in g1\<lparr>stderr := stderr g1 @ [(exception_type, exception_value)]\<rparr>)"

text \<open>\<^verbatim>\<open>issubclass(exception_type, ConnectionError)\<close>\<close>

fun issubclass_ConnectionError :: "exception_type \<Rightarrow> bool" where
  "issubclass_ConnectionError Exc_ConnectionError = True"
| "issubclass_ConnectionError (Exc_ConnectionError_subclass n) = True"
| "issubclass_ConnectionError (Exc_other n) = False"

definition on_send_order_error ::
  "exception_type \<Rightarrow> string \<Rightarrow> Request \<Rightarrow> gateway \<Rightarrow> Request \<times> gateway" where
  "on_send_order_error exception_type exception_value request g =
     (let order = (extra request)\<lparr>status := REJECTED\<rparr>;
          g1 = LocalOrderManager_on_order order g;
          g2 = (if \<not> issubclass_ConnectionError exception_type
                then on_error exception_type exception_value g1 else g1)
      in (request\<lparr>extra := order\<rparr>, g2))"

text \<open>\<^verbatim>\<open>query_order(page)\<close> queues one request for each symbol of the contract mode.\<close>

definition query_order :: "int \<Rightarrow> gateway \<Rightarrow> gateway" where
  "query_order page g =
     (let path = (if usdt_base g then ''/private/linear/order/list''
                  else ''/open-api/order/list'');
          symbols = (if usdt_base g then symbols_usdt else symbols_inverse)
      in g\<lparr>requests := requests g @
            map (\<lambda>symbol. \<lparr>rq_path = path, rq_symbol = symbol, rq_limit = 50,
                             rq_page = page\<rparr>) symbols\<rparr>)"

text \<open>The body of the loop of \<^verbatim>\<open>on_query_order\<close>.\<close>

definition on_query_order_entry :: "order_push \<Rightarrow> gateway \<Rightarrow> error option \<times> gateway" where
  "on_query_order_entry d g =
     (let sys_orderid = op_order_id d;
          local_orderid = local_orderid_of (op_order_link_id d) sys_orderid;
          g1 = update_orderid_map local_orderid sys_orderid g
      in
      case make_order (gateway_name g) local_orderid (op_created_at d) d of
        Inl e \<Rightarrow> (Some e, g1)
      | Inr order \<Rightarrow> (None, LocalOrderManager_on_order order g1))"

definition on_query_order :: "query_order_reply \<Rightarrow> gateway \<Rightarrow> error option \<times> gateway" where
  "on_query_order data g =
     (case check_error Name_query_order data g of
        (True, g1) \<Rightarrow> (None, g1)
      | (False, g1) \<Rightarrow>
          (case qo_result data of
             None \<Rightarrow> (None, write_log Log_query_order_done g1)
           | Some result \<Rightarrow>
               if page_data result = [] then (None, write_log Log_query_order_done g1)
               else
                 (case for_each on_query_order_entry (page_data result) g1 of
                    (Some e, g2) \<Rightarrow> (Some e, g2)
                  | (None, g2) \<Rightarrow>
                      if current_page result \<noteq> last_page result
                      then (None, query_order (current_page result + 1) g2)
                      else (None, write_log Log_query_order_done g2))))"


section \<open>History: \<^verbatim>\<open>query_history\<close>\<close>

definition INTERVAL_VT2BYBIT :: "Interval \<Rightarrow> string" where
  "INTERVAL_VT2BYBIT i = (case i of MINUTE \<Rightarrow> ''1'' | HOUR \<Rightarrow> ''60'' | DAILY \<Rightarrow> ''D''
     | WEEKLY \<Rightarrow> ''W'')"

text \<open>\<^verbatim>\<open>TIMEDELTA_MAP\<close>, in seconds.\<close>

definition TIMEDELTA_MAP :: "Interval \<Rightarrow> int" where
  "TIMEDELTA_MAP i = (case i of MINUTE \<Rightarrow> 60 | HOUR \<Rightarrow> 3600 | DAILY \<Rightarrow> 86400
     | WEEKLY \<Rightarrow> 604800)"

text \<open>\<^verbatim>\<open>hr_start\<close> is \<^verbatim>\<open>int(req.start.timestamp())\<close>.\<close>

record HistoryRequest =
  hr_symbol :: string
  hr_interval :: Interval
  hr_start :: int

record kline =
  open_time :: int
  k_volume :: rat
  k_open :: rat
  k_high :: rat
  k_low :: rat
  k_close :: rat

text \<open>
  The answer to one request: the HTTP status and text, and the fields of the decoded
  body. \<^verbatim>\<open>kr_result\<close> is empty for a \<^verbatim>\<open>result\<close> that is \<^verbatim>\<open>null\<close> or \<^verbatim>\<open>[]\<close>.
\<close>

record kline_response =
  status_code :: int
  resp_text :: string
  kr_ret_code :: int
  kr_ret_msg :: string
  kr_result :: "kline list"

text \<open>The parameters of one request.\<close>

record kline_params =
  kp_symbol :: string
  kp_interval :: string
  kp_from :: int
  kp_limit :: nat

text \<open>
  The venue answers the \<open>n\<close>-th request of a query according to its number and its
  parameters; any function of this type is a venue.
\<close>

type_synonym venue = "nat \<Rightarrow> kline_params \<Rightarrow> kline_response"

definition make_bar :: "(int \<Rightarrow> int) \<Rightarrow> HistoryRequest \<Rightarrow> kline \<Rightarrow> BarData" where
  "make_bar utcoffset req d =
     \<lparr>bar_symbol = hr_symbol req,
      bar_datetime = fromtimestamp_as_utc utcoffset (open_time d),
      bar_interval = hr_interval req,
      bar_volume = k_volume d, open_price = k_open d, high_price = k_high d,
      low_price = k_low d, close_price = k_close d\<rparr>"

text \<open>\<^verbatim>\<open>count = 200\<close>\<close>

definition count :: nat where
  "count = 200"




subsection \<open>Vocabulary for the history query\<close>

definition params_at :: "HistoryRequest \<Rightarrow> int \<Rightarrow> kline_params" where
  "params_at req start_time =
     \<lparr>kp_symbol = hr_symbol req, kp_interval = INTERVAL_VT2BYBIT (hr_interval req),
      kp_from = start_time, kp_limit = count\<rparr>"


text \<open>The bars a page contributes: none when the request failed.\<close>

definition page_bars :: "(int \<Rightarrow> int) \<Rightarrow> HistoryRequest \<Rightarrow> kline_response \<Rightarrow> BarData list" where
  "page_bars utcoffset req resp =
     (if status_code resp div 100 = 2 \<and> kr_ret_code resp = 0
      then map (make_bar utcoffset req) (kr_result resp) else [])"

text \<open>
  The cursor of the \<open>n\<close>-th request when every page before it was full: the start of the
  request, then the time of the last bar of the page before plus the interval.
\<close>

fun cursor :: "(int \<Rightarrow> int) \<Rightarrow> venue \<Rightarrow> HistoryRequest \<Rightarrow> nat \<Rightarrow> int" where
  "cursor utcoffset venue req 0 = hr_start req"
| "cursor utcoffset venue req (Suc n) =
     (case page_bars utcoffset req
             (venue n (params_at req (cursor utcoffset venue req n))) of
        [] \<Rightarrow> cursor utcoffset venue req n
      | b # bs \<Rightarrow> bar_datetime (last (b # bs)) + TIMEDELTA_MAP (hr_interval req))"

definition page :: "(int \<Rightarrow> int) \<Rightarrow> venue \<Rightarrow> HistoryRequest \<Rightarrow> nat \<Rightarrow> kline_response" where
  "page utcoffset venue req n = venue n (params_at req (cursor utcoffset venue req n))"


section \<open>Example states and packets\<close>

text \<open>
  The state of a connection after \<^verbatim>\<open>subscribe\<close> for \<^verbatim>\<open>BTCUSD\<close>, before any packet,
  and the same connection with a book of seven bids and five asks.
\<close>

definition mk_level :: "rat \<Rightarrow> string \<Rightarrow> rat \<Rightarrow> level" where
  "mk_level p s z = \<lparr>lv_price = p, lv_side = s, lv_size = z\<rparr>"

definition ex_tick :: TickData where
  "ex_tick = \<lparr>tk_symbol = ''BTCUSD'', tk_exchange = ''BYBIT'', tk_name = ''BTCUSD'',
     tk_gateway_name = ''BYBIT'', tk_datetime = 0, last_price = 0,
     volume = JInt 0, bid_price = [0, 0, 0, 0, 0], bid_volume = [0, 0, 0, 0, 0],
     ask_price = [0, 0, 0, 0, 0], ask_volume = [0, 0, 0, 0, 0]\<rparr>"

definition ex_ws :: ws_api where
  "ex_ws = \<lparr>callbacks = [''instrument_info.100ms.BTCUSD'' \<mapsto> H_on_tick,
       ''orderBookL2_25.BTCUSD'' \<mapsto> H_on_depth],
     ticks = [''BTCUSD'' \<mapsto> ex_tick],
     subscribed = [(''BTCUSD'', \<lparr>sr_symbol = ''BTCUSD'', sr_exchange = ''BYBIT''\<rparr>)],
     symbol_bids = Map.empty, symbol_asks = Map.empty, sent = []\<rparr>"

definition ex_gateway :: gateway where
  "ex_gateway = \<lparr>usdt_base = False, gateway_name = ''BYBIT'',
     order_manager = \<lparr>local_sys_orderid_map = Map.empty, sys_local_orderid_map = Map.empty,
       orders = Map.empty, pending = {}\<rparr>,
     events = [], stderr = [], requests = []\<rparr>"

definition ex_bids :: book where
  "ex_bids = map (\<lambda>p. (p, mk_level p ''Buy'' 1)) [100, 99, 98, 97, 96, 95, 94]"

definition ex_asks :: book where
  "ex_asks = map (\<lambda>p. (p, mk_level p ''Sell'' 1)) [101, 102, 103, 104, 105]"

definition ex_ws_book :: ws_api where
  "ex_ws_book = ex_ws\<lparr>symbol_bids := [''BTCUSD'' \<mapsto> ex_bids],
     symbol_asks := [''BTCUSD'' \<mapsto> ex_asks]\<rparr>"

definition depth_packet :: "string \<Rightarrow> pdata \<Rightarrow> jval \<Rightarrow> packet" where
  "depth_packet ty d ts = \<lparr>topic = Some ''orderBookL2_25.BTCUSD'', ptype = ty, pk_data = d,
     timestamp_e6 = ts, request_op = None, success = None\<rparr>"

definition delta_dict :: "level list \<Rightarrow> level list \<Rightarrow> level list \<Rightarrow> pdata" where
  "delta_dict dels ups ins = DepthDict \<lparr>order_book = None, dd_delete = Some dels,
     dd_update = Some ups, dd_insert = Some ins\<rparr>"

text \<open>A snapshot with one bid and one ask, in the form of each of the two feeds.\<close>

definition thin_snapshot :: packet where
  "thin_snapshot = depth_packet ''snapshot''
     (DepthList [mk_level 100 ''Buy'' 1, mk_level 101 ''Sell'' 2]) (JInt 1600000000000000)"

definition thin_snapshot_public :: packet where
  "thin_snapshot_public = depth_packet ''snapshot''
     (DepthDict \<lparr>order_book = Some [mk_level 100 ''Buy'' 1, mk_level 101 ''Sell'' 2],
        dd_delete = None, dd_update = None, dd_insert = None\<rparr>) (JStr ''1600000000000000'')"

text \<open>A delta that deletes the bid at 100 and inserts a new one at the same price.\<close>

definition delta_replace :: packet where
  "delta_replace = depth_packet ''delta''
     (delta_dict [mk_level 100 ''Buy'' 1] [mk_level 101 ''Sell'' 3] [mk_level 100 ''Buy'' 9])
     (JInt 1600000000000000)"

text \<open>A delta that deletes the bids at 100 and 99 and inserts a new one at 100 only.\<close>

definition delta_two_deletes :: packet where
  "delta_two_deletes = depth_packet ''delta''
     (delta_dict [mk_level 100 ''Buy'' 1, mk_level 99 ''Buy'' 1] [] [mk_level 100 ''Buy'' 9])
     (JInt 1600000000000000)"

text \<open>
  A delta that deletes the bid at 100 and a bid at 50, where nothing rests, and inserts a
  new bid at 100.
\<close>

definition delta_stale_delete :: packet where
  "delta_stale_delete = depth_packet ''delta''
     (delta_dict [mk_level 100 ''Buy'' 1, mk_level 50 ''Buy'' 1] [] [mk_level 100 ''Buy'' 9])
     (JInt 1600000000000000)"

definition bids_of :: "ws_api \<Rightarrow> rat \<rightharpoonup> level" where
  "bids_of w = (case symbol_bids w ''BTCUSD'' of None \<Rightarrow> Map.empty | Some b \<Rightarrow> map_of b)"

text \<open>
  An instrument snapshot whose last price is the number zero, an instrument update whose
  last price is the empty string, and a snapshot and an update of the public feed whose
  last price is the string \<^verbatim>\<open>"0"\<close>.
\<close>

definition tick_packet :: "string \<Rightarrow> tick_dict \<Rightarrow> packet" where
  "tick_packet ty d = \<lparr>topic = Some ''instrument_info.100ms.BTCUSD'', ptype = ty,
     pk_data = TickDict d, timestamp_e6 = JStr ''1600000000000000'', request_op = None,
     success = None\<rparr>"

definition zero_price_snapshot :: packet where
  "zero_price_snapshot = tick_packet ''snapshot''
     \<lparr>tf = \<lparr>last_price_e4 = Some (JInt 0), volume_24h = Some (JInt 7),
             volume_24h_e8 = Some (JInt 700000000), updated_at = Some 1600000000\<rparr>,
       td_update = None\<rparr>"

definition zero_price_update :: packet where
  "zero_price_update = tick_packet ''delta''
     \<lparr>tf = \<lparr>last_price_e4 = None, volume_24h = None, volume_24h_e8 = None,
             updated_at = Some 1600000000\<rparr>,
       td_update = Some [\<lparr>last_price_e4 = Some (JStr []), volume_24h = Some (JInt 7),
             volume_24h_e8 = Some (JInt 700000000), updated_at = None\<rparr>]\<rparr>"

definition zero_string_snapshot :: packet where
  "zero_string_snapshot = tick_packet ''snapshot''
     \<lparr>tf = \<lparr>last_price_e4 = Some (JStr ''0''), volume_24h = None,
             volume_24h_e8 = Some (JStr ''700000000''), updated_at = None\<rparr>,
       td_update = None\<rparr>"

definition zero_string_update :: packet where
  "zero_string_update = tick_packet ''delta''
     \<lparr>tf = \<lparr>last_price_e4 = None, volume_24h = None, volume_24h_e8 = None,
             updated_at = None\<rparr>,
       td_update = Some [\<lparr>last_price_e4 = Some (JStr ''0''), volume_24h = None,
             volume_24h_e8 = None, updated_at = None\<rparr>]\<rparr>"

text \<open>
  A connection whose cached tick holds a last price of 9000, as after an earlier packet.
\<close>

definition ex_ws_priced :: ws_api where
  "ex_ws_priced = ex_ws\<lparr>ticks := [''BTCUSD'' \<mapsto> ex_tick\<lparr>last_price := 9000\<rparr>]\<rparr>"

text \<open>
  A connection that remembers two subscriptions, a successful answer to the
  authentication request, and a push packet on a topic nobody subscribed to.
\<close>

definition ex_ws_two :: ws_api where
  "ex_ws_two = \<lparr>callbacks = Map.empty, ticks = Map.empty,
     subscribed = [(''BTCUSD'', \<lparr>sr_symbol = ''BTCUSD'', sr_exchange = ''BYBIT''\<rparr>),
                   (''ETHUSD'', \<lparr>sr_symbol = ''ETHUSD'', sr_exchange = ''BYBIT''\<rparr>)],
     symbol_bids = Map.empty, symbol_asks = Map.empty, sent = []\<rparr>"

definition auth_ok :: packet where
  "auth_ok = \<lparr>topic = None, ptype = [], pk_data = DepthList [], timestamp_e6 = JNull,
     request_op = Some ''auth'', success = Some (JInt 1)\<rparr>"

definition unknown_topic_packet :: packet where
  "unknown_topic_packet = \<lparr>topic = Some ''liquidation'', ptype = ''snapshot'',
     pk_data = DepthList [], timestamp_e6 = JStr ''1600000000000000'', request_op = None,
     success = None\<rparr>"

text \<open>
  An order that was sent under the local id \<^verbatim>\<open>L1\<close>, the gateway that holds it, and the
  request it travels with.
\<close>

definition ex_order :: OrderData where
  "ex_order = \<lparr>od_symbol = ''BTCUSD'', orderid = ''L1'', od_type = LIMIT, od_direction = LONG,
     od_price = 9000, od_volume = 10, traded = 0, status = NOTTRADED, od_datetime = 1600000000,
     od_gateway_name = ''BYBIT''\<rparr>"

definition ex_gateway_order :: gateway where
  "ex_gateway_order = ex_gateway\<lparr>order_manager :=
     \<lparr>local_sys_orderid_map = Map.empty, sys_local_orderid_map = Map.empty,
      orders = [''L1'' \<mapsto> ex_order], pending = {''L1''}\<rparr>\<rparr>"

definition ex_request :: Request where
  "ex_request = \<lparr>extra = ex_order\<rparr>"


definition ex_push :: "string \<Rightarrow> string \<Rightarrow> order_push" where
  "ex_push sys_id link_id = \<lparr>op_order_id = sys_id, op_order_link_id = link_id,
     op_symbol = ''BTCUSD'', op_order_type = ''Limit'', op_side = ''Buy'', op_price = 9000,
     op_qty = 10, op_cum_exec_qty = 10, op_order_status = ''Filled'',
     op_timestamp = 1600000060, op_created_at = 1600000000\<rparr>"

definition order_packet :: "order_push list \<Rightarrow> packet" where
  "order_packet ds = \<lparr>topic = Some ''order'', ptype = [], pk_data = OrderList ds,
     timestamp_e6 = JNull, request_op = None, success = None\<rparr>"

section \<open>Example runs\<close>

text \<open>The thin snapshot handled by each of the two classes.\<close>

definition thin_run :: "error option \<times> ws_api \<times> gateway" where
  "thin_run = BybitWebsocketApi_on_depth thin_snapshot ex_ws ex_gateway"

definition thin_run_public :: "error option \<times> ws_api \<times> gateway" where
  "thin_run_public = BybitPublicWebsocketApi_on_depth thin_snapshot_public ex_ws ex_gateway"

text \<open>Each of the three deltas handled on the book of seven bids and five asks.\<close>

definition replace_once :: "error option \<times> ws_api \<times> gateway" where
  "replace_once = BybitWebsocketApi_on_depth delta_replace ex_ws_book ex_gateway"

definition replace_twice :: "error option \<times> ws_api \<times> gateway" where
  "replace_twice =
     BybitWebsocketApi_on_depth delta_replace (fst (snd replace_once)) (snd (snd replace_once))"

definition two_deletes_once :: "error option \<times> ws_api \<times> gateway" where
  "two_deletes_once = BybitWebsocketApi_on_depth delta_two_deletes ex_ws_book ex_gateway"

definition two_deletes_twice :: "error option \<times> ws_api \<times> gateway" where
  "two_deletes_twice =
     BybitWebsocketApi_on_depth delta_two_deletes (fst (snd two_deletes_once))
       (snd (snd two_deletes_once))"

definition stale_delete_run :: "error option \<times> ws_api \<times> gateway" where
  "stale_delete_run = BybitWebsocketApi_on_depth delta_stale_delete ex_ws_book ex_gateway"

text \<open>A local time zone eight hours ahead of UTC.\<close>

definition utc_plus_8 :: "int \<Rightarrow> int" where
  "utc_plus_8 ts = 28800"

text \<open>The two packets with the last price \<^verbatim>\<open>"0"\<close> handled by the public class.\<close>

definition zero_string_run :: "error option \<times> ws_api \<times> gateway" where
  "zero_string_run =
     BybitPublicWebsocketApi_on_tick utc_plus_8 zero_string_snapshot ex_ws_priced ex_gateway"

definition zero_string_update_run :: "error option \<times> ws_api \<times> gateway" where
  "zero_string_update_run =
     BybitPublicWebsocketApi_on_tick utc_plus_8 zero_string_update ex_ws_priced ex_gateway"

text \<open>The packet on the unknown topic handled by each of the two classes.\<close>

definition unknown_topic_run :: "error option \<times> ws_api \<times> gateway" where
  "unknown_topic_run = BybitWebsocketApi_on_packet 0 unknown_topic_packet ex_ws ex_gateway"

definition unknown_topic_run_public :: "error option \<times> ws_api \<times> gateway" where
  "unknown_topic_run_public =
     BybitPublicWebsocketApi_on_packet utc_plus_8 unknown_topic_packet ex_ws ex_gateway"

text \<open>A connection error while the order \<^verbatim>\<open>L1\<close> is sent.\<close>

definition connection_error_run :: "Request \<times> gateway" where
  "connection_error_run =
     on_send_order_error Exc_ConnectionError ''refused'' ex_request ex_gateway_order"

text \<open>The push update for the order \<^verbatim>\<open>V9\<close>, which has no local id.\<close>

definition v9_run :: "error option \<times> ws_api \<times> gateway" where
  "v9_run = BybitWebsocketApi_on_order (order_packet [ex_push ''V9'' []]) ex_ws ex_gateway_order"







section \<open>Properties of the order book\<close>

lemma put_levels_maps:
  "put_levels ds b a = (b', a') \<Longrightarrow>
     map_of b' = map_of b ++ map_of (rev (buys ds)) \<and>
     map_of a' = map_of a ++ map_of (rev (sells ds))"
proof (induction ds arbitrary: b a)
  case Nil
  then show ?case by (simp add: buys_def sells_def)
next
  case (Cons d ds)
  show ?case
  proof (cases "lv_side d = ''Buy''")
    case True
    with Cons.prems have "put_levels ds (AList.update (lv_price d) d b) a = (b', a')" by simp
    from Cons.IH[OF this] True show ?thesis
      by (auto simp: buys_def sells_def update_conv' fun_eq_iff map_add_def split: option.splits)
  next
    case False
    with Cons.prems have "put_levels ds b (AList.update (lv_price d) d a) = (b', a')" by simp
    from Cons.IH[OF this] False show ?thesis
      by (auto simp: buys_def sells_def update_conv' fun_eq_iff map_add_def split: option.splits)
  qed
qed

lemma pop_levels_ok:
  "pop_levels ds b a = (None, b', a') \<Longrightarrow>
     map_of b' = map_of b |` (- fst ` set (buys ds)) \<and>
     map_of a' = map_of a |` (- fst ` set (sells ds)) \<and>
     fst ` set (buys ds) \<subseteq> dom (map_of b) \<and>
     fst ` set (sells ds) \<subseteq> dom (map_of a)"
proof (induction ds arbitrary: b a)
  case Nil
  then show ?case by (simp add: buys_def sells_def)
next
  case (Cons d ds)
  show ?case
  proof (cases "lv_side d = ''Buy''")
    case True
    with Cons.prems obtain v where v: "map_of b (lv_price d) = Some v"
      and r: "pop_levels ds (AList.delete (lv_price d) b) a = (None, b', a')"
      by (auto simp: dict_pop_def split: option.splits)
    from Cons.IH[OF r] True v show ?thesis
      by (auto simp: buys_def sells_def delete_conv' fun_eq_iff restrict_map_def dom_def split: if_splits)
  next
    case False
    with Cons.prems obtain v where v: "map_of a (lv_price d) = Some v"
      and r: "pop_levels ds b (AList.delete (lv_price d) a) = (None, b', a')"
      by (auto simp: dict_pop_def split: option.splits)
    from Cons.IH[OF r] False v show ?thesis
      by (auto simp: buys_def sells_def delete_conv' fun_eq_iff restrict_map_def dom_def split: if_splits)
  qed
qed

lemma pop_levels_err:
  "pop_levels ds b a = (Some e, b', a') \<Longrightarrow> e = KeyError"
  by (induction ds arbitrary: b a) (auto simp: dict_pop_def split: if_splits option.splits)


lemma apply_delta_err:
  "apply_delta dd b a = (Some e, b', a') \<Longrightarrow> e = KeyError"
  by (auto simp: apply_delta_def split: option.splits prod.splits dest: pop_levels_err)

lemma apply_delta_ok:
  assumes "apply_delta dd b a = (None, b', a')"
  obtains D U I where "dd_delete dd = Some D" "dd_update dd = Some U" "dd_insert dd = Some I"
    "map_of b' = (map_of b |` (- fst ` set (buys D))) ++ map_of (rev (buys (U @ I)))"
    "map_of a' = (map_of a |` (- fst ` set (sells D))) ++ map_of (rev (sells (U @ I)))"
    "fst ` set (buys D) \<subseteq> dom (map_of b)"
    "fst ` set (sells D) \<subseteq> dom (map_of a)"
proof -
  from assms obtain D U I b1 a1 where k: "dd_delete dd = Some D" "dd_update dd = Some U"
      "dd_insert dd = Some I"
    and p: "pop_levels D b a = (None, b1, a1)"
    and q: "put_levels (U @ I) b1 a1 = (b', a')"
    by (auto simp: apply_delta_def split: option.splits prod.splits)
  from pop_levels_ok[OF p] put_levels_maps[OF q] k that show thesis by simp
qed

lemma delta_twice_maps:
  assumes 1: "apply_delta dd b a = (None, b1, a1)"
    and 2: "apply_delta dd b1 a1 = (None, b2, a2)"
  shows "map_of b2 = map_of b1 \<and> map_of a2 = map_of a1"
proof -
  from 1 obtain D U I where k: "dd_delete dd = Some D" "dd_update dd = Some U" "dd_insert dd = Some I"
    and b1: "map_of b1 = (map_of b |` (- fst ` set (buys D))) ++ map_of (rev (buys (U @ I)))"
    and a1: "map_of a1 = (map_of a |` (- fst ` set (sells D))) ++ map_of (rev (sells (U @ I)))"
    by (rule apply_delta_ok)
  from 2 obtain D' U' I' where k': "dd_delete dd = Some D'" "dd_update dd = Some U'"
      "dd_insert dd = Some I'"
    and b2': "map_of b2 = (map_of b1 |` (- fst ` set (buys D'))) ++ map_of (rev (buys (U' @ I')))"
    and a2': "map_of a2 = (map_of a1 |` (- fst ` set (sells D'))) ++ map_of (rev (sells (U' @ I')))"
    and sb': "fst ` set (buys D') \<subseteq> dom (map_of b1)"
    and sa': "fst ` set (sells D') \<subseteq> dom (map_of a1)"
    by (rule apply_delta_ok)
  from k k' have eq: "D' = D" "U' = U" "I' = I" by simp_all
  note b2 = b2'[unfolded eq] and a2 = a2'[unfolded eq] and sb = sb'[unfolded eq]
    and sa = sa'[unfolded eq]
  have "map_of b2 k = map_of b1 k" for k
  proof (cases "k \<in> fst ` set (buys D)")
    case True
    with sb have "k \<in> dom (map_of b1)" by blast
    with True b1 have "k \<in> dom (map_of (rev (buys (U @ I))))"
      by (auto simp: map_add_def restrict_map_def dom_def split: option.splits)
    then show ?thesis by (auto simp: b2 b1 map_add_def split: option.splits)
  next
    case False
    then show ?thesis by (auto simp: b2 b1 map_add_def restrict_map_def split: option.splits)
  qed
  moreover have "map_of a2 k = map_of a1 k" for k
  proof (cases "k \<in> fst ` set (sells D)")
    case True
    with sa have "k \<in> dom (map_of a1)" by blast
    with True a1 have "k \<in> dom (map_of (rev (sells (U @ I))))"
      by (auto simp: map_add_def restrict_map_def dom_def split: option.splits)
    then show ?thesis by (auto simp: a2 a1 map_add_def split: option.splits)
  next
    case False
    then show ?thesis by (auto simp: a2 a1 map_add_def restrict_map_def split: option.splits)
  qed
  ultimately show ?thesis by (simp add: fun_eq_iff)
qed

lemma depth_loop_err:
  "set bk \<subseteq> fst ` set bids \<Longrightarrow> set ak \<subseteq> fst ` set asks \<Longrightarrow>
   depth_loop is bk ak bids asks t = (Some e, t') \<Longrightarrow> e = IndexError"
proof (induction "is" arbitrary: t)
  case Nil
  then show ?case by simp
next
  case (Cons i "is")
  from Cons.prems(1) have b: "j < length bk \<Longrightarrow> map_of bids (bk ! j) \<noteq> None" for j
    by (metis map_of_eq_None_iff nth_mem subsetD)
  from Cons.prems(2) have a: "j < length ak \<Longrightarrow> map_of asks (ak ! j) \<noteq> None" for j
    by (metis map_of_eq_None_iff nth_mem subsetD)
  from Cons.prems(3) Cons.IH[OF Cons.prems(1,2)] b[of i] a[of i] show ?case
    by (auto simp: list_get_def dict_get_def split: if_splits option.splits)
qed

lemma extract_depth_err:
  "extract_depth bids asks t = (Some e, t') \<Longrightarrow> e = IndexError"
  unfolding extract_depth_def by (rule depth_loop_err[of _ bids _ asks]) auto

lemma ws_update_books_err:
  "ws_update_books pk b a = (Some e, b', a') \<Longrightarrow> e = KeyError \<or> e = TypeError"
  by (auto simp: ws_update_books_def split: if_splits pdata.splits prod.splits dest: apply_delta_err)

lemma public_update_books_err:
  "public_update_books pk b a = (Some e, b', a') \<Longrightarrow> e = KeyError \<or> e = TypeError"
  by (auto simp: public_update_books_def split: if_splits pdata.splits prod.splits option.splits
      dest: apply_delta_err)

lemma ws_on_depth_books:
  assumes r: "BybitWebsocketApi_on_depth pk w g = (e, w', g')"
    and e: "e = None \<or> e = Some IndexError"
  obtains tp tick b1 a1 where "topic pk = Some tp" "ticks w (book_symbol tp) = Some tick"
    "ws_update_books pk (setdefault_book (symbol_bids w) (book_symbol tp))
       (setdefault_book (symbol_asks w) (book_symbol tp)) = (None, b1, a1)"
    "symbol_bids w' = (symbol_bids w)(book_symbol tp \<mapsto> b1)"
    "symbol_asks w' = (symbol_asks w)(book_symbol tp \<mapsto> a1)"
    "e = None \<longrightarrow> fst (extract_depth b1 a1 tick) = None"
proof -
  from r e obtain tp where tp: "topic pk = Some tp"
    by (cases "topic pk") (auto simp: BybitWebsocketApi_on_depth_def)
  from r e tp obtain tick where tk: "ticks w (book_symbol tp) = Some tick"
    by (cases "ticks w (book_symbol tp)")
      (auto simp: BybitWebsocketApi_on_depth_def)
  obtain eu b1 a1 where u: "ws_update_books pk (setdefault_book (symbol_bids w) (book_symbol tp))
       (setdefault_book (symbol_asks w) (book_symbol tp)) = (eu, b1, a1)"
    by (cases "ws_update_books pk (setdefault_book (symbol_bids w) (book_symbol tp))
       (setdefault_book (symbol_asks w) (book_symbol tp))") auto
  have eu: "eu = None"
  proof (cases eu)
    case (Some x)
    with r tp tk u have "e = Some x"
      by (simp add: BybitWebsocketApi_on_depth_def)
    with e ws_update_books_err[OF u[unfolded Some]] show ?thesis by auto
  qed simp
  from r tp tk u eu have "symbol_bids w' = (symbol_bids w)(book_symbol tp \<mapsto> b1) \<and>
    symbol_asks w' = (symbol_asks w)(book_symbol tp \<mapsto> a1) \<and>
    (e = None \<longrightarrow> fst (extract_depth b1 a1 tick) = None)"
    by (auto simp: BybitWebsocketApi_on_depth_def Let_def store_books_def
        set_tick_def split: option.splits prod.splits sum.splits)
  with tp tk u eu that show thesis by blast
qed

lemma public_on_depth_books:
  assumes r: "BybitPublicWebsocketApi_on_depth pk w g = (e, w', g')"
    and e: "e = None \<or> e = Some IndexError"
  obtains tp tick b1 a1 where "topic pk = Some tp" "ticks w (book_symbol tp) = Some tick"
    "public_update_books pk (setdefault_book (symbol_bids w) (book_symbol tp))
       (setdefault_book (symbol_asks w) (book_symbol tp)) = (None, b1, a1)"
    "symbol_bids w' = (symbol_bids w)(book_symbol tp \<mapsto> b1)"
    "symbol_asks w' = (symbol_asks w)(book_symbol tp \<mapsto> a1)"
    "e = None \<longrightarrow> fst (extract_depth b1 a1 tick) = None"
proof -
  from r e obtain tp where tp: "topic pk = Some tp"
    by (cases "topic pk") (auto simp: BybitPublicWebsocketApi_on_depth_def)
  have "timestamp_seconds (timestamp_e6 pk) \<noteq> Inl x" for x
  proof
    assume "timestamp_seconds (timestamp_e6 pk) = Inl x"
    with r tp have "e = Some x" by (simp add: BybitPublicWebsocketApi_on_depth_def)
    moreover from \<open>timestamp_seconds (timestamp_e6 pk) = Inl x\<close>
    have "x = TypeError \<or> x = ValueError"
      by (auto simp: timestamp_seconds_def int_of_str_def int_of_digits_def
          split: jval.splits list.splits if_splits sum.splits option.splits)
    ultimately show False using e by auto
  qed
  then obtain ts where ts: "timestamp_seconds (timestamp_e6 pk) = Inr ts"
    by (cases "timestamp_seconds (timestamp_e6 pk)") auto
  from r e tp ts obtain tick where tk: "ticks w (book_symbol tp) = Some tick"
    by (cases "ticks w (book_symbol tp)")
      (auto simp: BybitPublicWebsocketApi_on_depth_def)
  obtain eu b1 a1 where u: "public_update_books pk (setdefault_book (symbol_bids w) (book_symbol tp))
       (setdefault_book (symbol_asks w) (book_symbol tp)) = (eu, b1, a1)"
    by (cases "public_update_books pk (setdefault_book (symbol_bids w) (book_symbol tp))
       (setdefault_book (symbol_asks w) (book_symbol tp))") auto
  have eu: "eu = None"
  proof (cases eu)
    case (Some x)
    with r tp ts tk u have "e = Some x"
      by (simp add: BybitPublicWebsocketApi_on_depth_def)
    with e public_update_books_err[OF u[unfolded Some]] show ?thesis by auto
  qed simp
  from r tp ts tk u eu have "symbol_bids w' = (symbol_bids w)(book_symbol tp \<mapsto> b1) \<and>
    symbol_asks w' = (symbol_asks w)(book_symbol tp \<mapsto> a1) \<and>
    (e = None \<longrightarrow> fst (extract_depth b1 a1 tick) = None)"
    by (auto simp: BybitPublicWebsocketApi_on_depth_def Let_def store_books_def
        set_tick_def split: option.splits prod.splits sum.splits)
  with tp tk u eu that show thesis by blast
qed

lemma range5: "[0..<5] = [0, 1, 2, 3, 4]"
  by (simp add: upt_conv_Cons)

lemma book_symbol_BTCUSD: "book_symbol ''orderBookL2_25.BTCUSD'' = ''BTCUSD''"
  by (simp add: book_symbol_def str_remove.simps)

lemmas depth_eval =
  BybitWebsocketApi_on_depth_def BybitPublicWebsocketApi_on_depth_def
  ws_update_books_def public_update_books_def apply_delta_def
  setdefault_book_def store_books_def set_tick_def extract_depth_def
  list_get_def dict_get_def dict_pop_def Let_def range5 book_symbol_BTCUSD fromtimestamp_def
  timestamp_seconds_def int_of_str_def int_of_digits_def digit_of_def
  depth_packet_def mk_level_def ex_ws_def ex_gateway_def

lemmas delta_eval = depth_eval delta_dict_def ex_ws_book_def ex_bids_def ex_asks_def

lemma delta_branch_ws:
  "ptype pk \<noteq> ''snapshot'' \<Longrightarrow> ws_update_books pk b a = (None, b', a') \<Longrightarrow>
     \<exists>dd. pk_data pk = DepthDict dd \<and> apply_delta dd b a = (None, b', a')"
  by (auto simp: ws_update_books_def split: pdata.splits)

lemma delta_branch_public:
  "ptype pk \<noteq> ''snapshot'' \<Longrightarrow> public_update_books pk b a = (None, b', a') \<Longrightarrow>
     \<exists>dd. pk_data pk = DepthDict dd \<and> apply_delta dd b a = (None, b', a')"
  by (auto simp: public_update_books_def split: pdata.splits)

lemma on_depth_delta_books:
  assumes od: "is_on_depth od" and ty: "ptype pk \<noteq> ''snapshot''"
    and r: "od pk w g = (e, w', g')" and e: "e = None \<or> e = Some IndexError"
  obtains tp tick dd b1 a1 where "topic pk = Some tp" "ticks w (book_symbol tp) = Some tick"
    "pk_data pk = DepthDict dd"
    "apply_delta dd (setdefault_book (symbol_bids w) (book_symbol tp))
       (setdefault_book (symbol_asks w) (book_symbol tp)) = (None, b1, a1)"
    "symbol_bids w' = (symbol_bids w)(book_symbol tp \<mapsto> b1)"
    "symbol_asks w' = (symbol_asks w)(book_symbol tp \<mapsto> a1)"
proof -
  from od consider "od = BybitWebsocketApi_on_depth" | "od = BybitPublicWebsocketApi_on_depth"
    by (auto simp: is_on_depth_def)
  then show thesis
  proof cases
    case 1
    with r e obtain tp tick b1 a1 where h: "topic pk = Some tp" "ticks w (book_symbol tp) = Some tick"
      "ws_update_books pk (setdefault_book (symbol_bids w) (book_symbol tp))
         (setdefault_book (symbol_asks w) (book_symbol tp)) = (None, b1, a1)"
      "symbol_bids w' = (symbol_bids w)(book_symbol tp \<mapsto> b1)"
      "symbol_asks w' = (symbol_asks w)(book_symbol tp \<mapsto> a1)"
      by (auto elim: ws_on_depth_books)
    from delta_branch_ws[OF ty h(3)] h that show thesis by blast
  next
    case 2
    with r e obtain tp tick b1 a1 where h: "topic pk = Some tp" "ticks w (book_symbol tp) = Some tick"
      "public_update_books pk (setdefault_book (symbol_bids w) (book_symbol tp))
         (setdefault_book (symbol_asks w) (book_symbol tp)) = (None, b1, a1)"
      "symbol_bids w' = (symbol_bids w)(book_symbol tp \<mapsto> b1)"
      "symbol_asks w' = (symbol_asks w)(book_symbol tp \<mapsto> a1)"
      by (auto elim: public_on_depth_books)
    from delta_branch_public[OF ty h(3)] h that show thesis by blast
  qed
qed

subsection \<open>Thin books\<close>

lemma depth_loop_None:
  "depth_loop is bk ak bids asks t = (None, t') \<Longrightarrow>
     \<forall>i\<in>set is. i < length bk \<and> i < length ak"
  by (induction "is" arbitrary: t)
    (auto simp: list_get_def dict_get_def split: if_splits option.splits)

lemma extract_depth_None:
  assumes "fst (extract_depth bids asks t) = None"
  shows "5 \<le> length bids \<and> 5 \<le> length asks"
proof -
  from assms obtain t' where
    "depth_loop [0..<5] (rev (sort (map fst bids))) (sort (map fst asks)) bids asks t = (None, t')"
    by (cases "extract_depth bids asks t") (auto simp: extract_depth_def)
  from depth_loop_None[OF this] have "4 < length (rev (sort (map fst bids))) \<and>
     4 < length (sort (map fst asks))" by (simp add: range5)
  then show ?thesis by simp
qed

lemma ws_on_depth_error_gateway:
  "BybitWebsocketApi_on_depth pk w g = (Some e, w', g') \<Longrightarrow> g' = g"
  by (auto simp: BybitWebsocketApi_on_depth_def Let_def
      split: option.splits prod.splits sum.splits)

lemma public_on_depth_error_gateway:
  "BybitPublicWebsocketApi_on_depth pk w g = (Some e, w', g') \<Longrightarrow> g' = g"
  by (auto simp: BybitPublicWebsocketApi_on_depth_def Let_def
      split: option.splits prod.splits sum.splits)

lemma on_depth_None_deep:
  assumes od: "is_on_depth od" and r: "od pk w g = (None, w', g')"
  obtains tp b a where "topic pk = Some tp" "symbol_bids w' (book_symbol tp) = Some b"
    "symbol_asks w' (book_symbol tp) = Some a" "5 \<le> length b" "5 \<le> length a"
proof -
  from od consider "od = BybitWebsocketApi_on_depth" | "od = BybitPublicWebsocketApi_on_depth"
    by (auto simp: is_on_depth_def)
  then show thesis
  proof cases
    case 1
    with r obtain tp tick b1 a1 where h: "topic pk = Some tp"
      "symbol_bids w' = (symbol_bids w)(book_symbol tp \<mapsto> b1)"
      "symbol_asks w' = (symbol_asks w)(book_symbol tp \<mapsto> a1)"
      "fst (extract_depth b1 a1 tick) = None"
      by (auto elim: ws_on_depth_books)
    from extract_depth_None[OF h(4)] h that show thesis by simp
  next
    case 2
    with r obtain tp tick b1 a1 where h: "topic pk = Some tp"
      "symbol_bids w' = (symbol_bids w)(book_symbol tp \<mapsto> b1)"
      "symbol_asks w' = (symbol_asks w)(book_symbol tp \<mapsto> a1)"
      "fst (extract_depth b1 a1 tick) = None"
      by (auto elim: public_on_depth_books)
    from extract_depth_None[OF h(4)] h that show thesis by simp
  qed
qed

text \<open>
  Claim C1. The claim asks that \<^verbatim>\<open>on_depth\<close>, on a book with fewer than five levels on a
  side, does not fault and marks the missing slots absent. The code does the opposite:
  whenever the book it has just stored for the symbol has fewer than five bids or fewer
  than five asks, \<^verbatim>\<open>on_depth\<close> raises and pushes no quote; the gateway is left as it was.
  In both classes the fault is the \<^verbatim>\<open>IndexError\<close> of \<^verbatim>\<open>bid_keys[i]\<close> or
  \<^verbatim>\<open>ask_keys[i]\<close>, as the evaluation below shows for a snapshot with one bid and one ask:
  slot 1 of the cached tick is written, slots 2 to 5 keep their old values.
\<close>

theorem on_depth_thin_book_raises:
  assumes od: "is_on_depth od" and r: "od pk w g = (e, w', g')"
    and tp: "topic pk = Some tp"
    and b: "symbol_bids w' (book_symbol tp) = Some b"
    and a: "symbol_asks w' (book_symbol tp) = Some a"
    and thin: "length b < 5 \<or> length a < 5"
  shows "e \<noteq> None \<and> g' = g"
proof -
  have ne: "e \<noteq> None"
  proof
    assume "e = None"
    with od r obtain tp' b' a' where "topic pk = Some tp'"
      "symbol_bids w' (book_symbol tp') = Some b'" "symbol_asks w' (book_symbol tp') = Some a'"
      "5 \<le> length b'" "5 \<le> length a'"
      by (auto elim: on_depth_None_deep)
    with tp b a thin show False by auto
  qed
  then obtain x where x: "e = Some x" by auto
  from od r x have "g' = g"
    by (auto simp: is_on_depth_def dest: ws_on_depth_error_gateway public_on_depth_error_gateway)
  with ne show ?thesis by simp
qed

theorem on_depth_thin_book_raises_witness:
  "fst thin_run = Some IndexError \<and> snd (snd thin_run) = ex_gateway \<and>
   map_option bid_price (ticks (fst (snd thin_run)) ''BTCUSD'') = Some [100, 0, 0, 0, 0] \<and>
   fst thin_run_public = Some IndexError \<and> snd (snd thin_run_public) = ex_gateway \<and>
   map_option bid_price (ticks (fst (snd thin_run_public)) ''BTCUSD'') = Some [100, 0, 0, 0, 0]"
proof -
  have e: "fst thin_run = Some IndexError"
    by (simp add: thin_run_def thin_snapshot_def depth_eval)
  have t: "map_option bid_price (ticks (fst (snd thin_run)) ''BTCUSD'') = Some [100, 0, 0, 0, 0]"
    by (simp add: thin_run_def thin_snapshot_def depth_eval ex_tick_def)
  have b: "symbol_bids (fst (snd thin_run)) (book_symbol ''orderBookL2_25.BTCUSD'') =
      Some [(100, mk_level 100 ''Buy'' 1)]"
    by (simp add: thin_run_def thin_snapshot_def depth_eval)
  have a: "symbol_asks (fst (snd thin_run)) (book_symbol ''orderBookL2_25.BTCUSD'') =
      Some [(101, mk_level 101 ''Sell'' 2)]"
    by (simp add: thin_run_def thin_snapshot_def depth_eval)
  have r: "BybitWebsocketApi_on_depth thin_snapshot ex_ws ex_gateway =
      (fst thin_run, fst (snd thin_run), snd (snd thin_run))"
    by (simp add: thin_run_def)
  have tp: "topic thin_snapshot = Some ''orderBookL2_25.BTCUSD''"
    by (simp add: thin_snapshot_def depth_packet_def)
  have od: "is_on_depth BybitWebsocketApi_on_depth" by (simp add: is_on_depth_def)
  have g: "snd (snd thin_run) = ex_gateway"
    using on_depth_thin_book_raises[OF od r tp b a] by simp
  have pe: "fst thin_run_public = Some IndexError"
    by (simp add: thin_run_public_def thin_snapshot_public_def depth_eval)
  have pt: "map_option bid_price (ticks (fst (snd thin_run_public)) ''BTCUSD'') =
      Some [100, 0, 0, 0, 0]"
    by (simp add: thin_run_public_def thin_snapshot_public_def depth_eval ex_tick_def)
  have pg: "snd (snd thin_run_public) = ex_gateway"
    by (simp add: thin_run_public_def thin_snapshot_public_def depth_eval)
  from e t g pe pt pg show ?thesis by simp
qed
subsection \<open>Applying a delta twice\<close>

lemma same_books_bids_of: "same_books w1 w2 \<Longrightarrow> bids_of w1 = bids_of w2"
proof -
  assume "same_books w1 w2"
  then have "map_option map_of (symbol_bids w1 ''BTCUSD'') =
      map_option map_of (symbol_bids w2 ''BTCUSD'')"
    by (simp add: same_books_def)
  then show ?thesis
    by (cases "symbol_bids w1 ''BTCUSD''"; cases "symbol_bids w2 ''BTCUSD''")
      (simp_all add: bids_of_def)
qed

text \<open>
  Claim C3, as amended. Let \<^verbatim>\<open>on_depth\<close> (of either class) handle the same non-snapshot
  packet twice in a row. If both calls get past the book update, that is, each returns or
  raises only the later \<^verbatim>\<open>IndexError\<close> of the depth extraction, then the bid and ask dicts
  of every symbol after the second call equal those after the first.
\<close>

theorem delta_applied_twice:
  assumes od: "is_on_depth od" and ty: "ptype pk \<noteq> ''snapshot''"
    and r1: "od pk w g = (e1, w1, g1)" and r2: "od pk w1 g1 = (e2, w2, g2)"
    and e1: "e1 = None \<or> e1 = Some IndexError" and e2: "e2 = None \<or> e2 = Some IndexError"
  shows "same_books w2 w1"
proof -
  from od ty r1 e1 obtain tp tick dd b1 a1 where 1: "topic pk = Some tp" "pk_data pk = DepthDict dd"
    "apply_delta dd (setdefault_book (symbol_bids w) (book_symbol tp))
       (setdefault_book (symbol_asks w) (book_symbol tp)) = (None, b1, a1)"
    "symbol_bids w1 = (symbol_bids w)(book_symbol tp \<mapsto> b1)"
    "symbol_asks w1 = (symbol_asks w)(book_symbol tp \<mapsto> a1)"
    by (rule on_depth_delta_books)
  from od ty r2 e2 obtain tp' tick' dd' b2 a2 where 2: "topic pk = Some tp'"
    "pk_data pk = DepthDict dd'"
    "apply_delta dd' (setdefault_book (symbol_bids w1) (book_symbol tp'))
       (setdefault_book (symbol_asks w1) (book_symbol tp')) = (None, b2, a2)"
    "symbol_bids w2 = (symbol_bids w1)(book_symbol tp' \<mapsto> b2)"
    "symbol_asks w2 = (symbol_asks w1)(book_symbol tp' \<mapsto> a2)"
    by (rule on_depth_delta_books)
  from 1 2 have eq: "tp' = tp" "dd' = dd" by simp_all
  from 2(3) 1(4,5) have "apply_delta dd b1 a1 = (None, b2, a2)"
    by (simp add: eq setdefault_book_def)
  from delta_twice_maps[OF 1(3) this] 1(4,5) 2(4,5) show ?thesis
    by (simp add: same_books_def eq)
qed

theorem delta_applied_twice_witness:
  "fst replace_once = None \<and> fst replace_twice = None \<and>
   same_books (fst (snd replace_twice)) (fst (snd replace_once))"
proof -
  have e1: "fst replace_once = None"
    by (simp add: replace_once_def delta_replace_def delta_eval)
  have e2: "fst replace_twice = None"
    by (simp add: replace_twice_def replace_once_def delta_replace_def delta_eval)
  have ty: "ptype delta_replace \<noteq> ''snapshot''"
    by (simp add: delta_replace_def depth_packet_def)
  have od: "is_on_depth BybitWebsocketApi_on_depth" by (simp add: is_on_depth_def)
  have r1: "BybitWebsocketApi_on_depth delta_replace ex_ws_book ex_gateway =
      (fst replace_once, fst (snd replace_once), snd (snd replace_once))"
    by (simp add: replace_once_def)
  have r2: "BybitWebsocketApi_on_depth delta_replace (fst (snd replace_once))
      (snd (snd replace_once)) =
      (fst replace_twice, fst (snd replace_twice), snd (snd replace_twice))"
    by (simp add: replace_twice_def)
  have "same_books (fst (snd replace_twice)) (fst (snd replace_once))"
    by (rule delta_applied_twice[OF od ty r1 r2]) (simp_all add: e1 e2)
  with e1 e2 show ?thesis by simp
qed

text \<open>
  The claim as stated, for every book and every delta, fails: \<^verbatim>\<open>dict.pop\<close> raises
  \<^verbatim>\<open>KeyError\<close> for a price that is absent. The delta below deletes the bids at 100 and
  99 and inserts a bid at 100. The first call leaves a bid at 100; the second call pops it,
  raises at 99 and never reaches the insert, so the bid at 100 is gone.
\<close>

theorem delta_applied_twice_counterexample:
  "fst two_deletes_once = None \<and> fst two_deletes_twice = Some KeyError \<and>
   bids_of (fst (snd two_deletes_once)) 100 = Some (mk_level 100 ''Buy'' 9) \<and>
   bids_of (fst (snd two_deletes_twice)) 100 = None \<and>
   \<not> same_books (fst (snd two_deletes_twice)) (fst (snd two_deletes_once))"
proof -
  have e1: "fst two_deletes_once = None"
    by (simp add: two_deletes_once_def delta_two_deletes_def delta_eval)
  have e2: "fst two_deletes_twice = Some KeyError"
    by (simp add: two_deletes_twice_def two_deletes_once_def delta_two_deletes_def delta_eval)
  have b1: "bids_of (fst (snd two_deletes_once)) 100 = Some (mk_level 100 ''Buy'' 9)"
    by (simp add: two_deletes_once_def delta_two_deletes_def delta_eval bids_of_def)
  have b2: "bids_of (fst (snd two_deletes_twice)) 100 = None"
    by (simp add: two_deletes_twice_def two_deletes_once_def delta_two_deletes_def delta_eval
        bids_of_def)
  have "\<not> same_books (fst (snd two_deletes_twice)) (fst (snd two_deletes_once))"
  proof
    assume "same_books (fst (snd two_deletes_twice)) (fst (snd two_deletes_once))"
    then have "bids_of (fst (snd two_deletes_twice)) 100 = bids_of (fst (snd two_deletes_once)) 100"
      by (simp add: same_books_bids_of)
    with b1 b2 show False by simp
  qed
  with e1 e2 b1 b2 show ?thesis by simp
qed
subsection \<open>Deletes before upserts\<close>

lemma upserts_in_dom:
  assumes "d \<in> set ds"
  shows "lv_side d = ''Buy'' \<Longrightarrow> lv_price d \<in> dom (m ++ map_of (rev (buys ds)))"
    and "lv_side d \<noteq> ''Buy'' \<Longrightarrow> lv_price d \<in> dom (m' ++ map_of (rev (sells ds)))"
proof -
  assume "lv_side d = ''Buy''"
  with assms have "(lv_price d, d) \<in> set (rev (buys ds))" by (simp add: buys_def)
  then have "lv_price d \<in> fst ` set (rev (buys ds))" by force
  then show "lv_price d \<in> dom (m ++ map_of (rev (buys ds)))"
    by (simp add: dom_map_of_conv_image_fst)
next
  assume "lv_side d \<noteq> ''Buy''"
  with assms have "(lv_price d, d) \<in> set (rev (sells ds))" by (simp add: sells_def)
  then have "lv_price d \<in> fst ` set (rev (sells ds))" by force
  then show "lv_price d \<in> dom (m' ++ map_of (rev (sells ds)))"
    by (simp add: dom_map_of_conv_image_fst)
qed

text \<open>
  Claim C4, as amended. Let \<^verbatim>\<open>on_depth\<close> (of either class) handle a non-snapshot packet
  and get past the book update (it returns, or raises only the later \<^verbatim>\<open>IndexError\<close> of the
  depth extraction). Then the packet carries the three lists, and each stored book is the
  old book with the prices of the delete list removed first and the entries of
  \<^verbatim>\<open>update + insert\<close> stored afterwards, the last entry for a price winning. So every
  price of \<^verbatim>\<open>update + insert\<close> rests in the book of its side, also when the same packet
  deletes it.
\<close>

theorem deletes_before_upserts:
  assumes od: "is_on_depth od" and ty: "ptype pk \<noteq> ''snapshot''"
    and r: "od pk w g = (e, w', g')" and e: "e = None \<or> e = Some IndexError"
  shows "\<exists>tp dd D U I b' a'.
     topic pk = Some tp \<and> pk_data pk = DepthDict dd \<and>
     dd_delete dd = Some D \<and> dd_update dd = Some U \<and> dd_insert dd = Some I \<and>
     symbol_bids w' (book_symbol tp) = Some b' \<and> symbol_asks w' (book_symbol tp) = Some a' \<and>
     map_of b' = (map_of (setdefault_book (symbol_bids w) (book_symbol tp))
                    |` (- fst ` set (buys D))) ++ map_of (rev (buys (U @ I))) \<and>
     map_of a' = (map_of (setdefault_book (symbol_asks w) (book_symbol tp))
                    |` (- fst ` set (sells D))) ++ map_of (rev (sells (U @ I))) \<and>
     (\<forall>d\<in>set (U @ I). if lv_side d = ''Buy'' then lv_price d \<in> dom (map_of b')
                       else lv_price d \<in> dom (map_of a'))"
proof -
  from od ty r e obtain tp tick dd b1 a1 where 1: "topic pk = Some tp" "pk_data pk = DepthDict dd"
    "apply_delta dd (setdefault_book (symbol_bids w) (book_symbol tp))
       (setdefault_book (symbol_asks w) (book_symbol tp)) = (None, b1, a1)"
    "symbol_bids w' = (symbol_bids w)(book_symbol tp \<mapsto> b1)"
    "symbol_asks w' = (symbol_asks w)(book_symbol tp \<mapsto> a1)"
    by (rule on_depth_delta_books)
  from 1(3) obtain D U I where 2: "dd_delete dd = Some D" "dd_update dd = Some U"
    "dd_insert dd = Some I"
    "map_of b1 = (map_of (setdefault_book (symbol_bids w) (book_symbol tp))
        |` (- fst ` set (buys D))) ++ map_of (rev (buys (U @ I)))"
    "map_of a1 = (map_of (setdefault_book (symbol_asks w) (book_symbol tp))
        |` (- fst ` set (sells D))) ++ map_of (rev (sells (U @ I)))"
    by (rule apply_delta_ok)
  have "\<forall>d\<in>set (U @ I). if lv_side d = ''Buy'' then lv_price d \<in> dom (map_of b1)
                       else lv_price d \<in> dom (map_of a1)"
  proof
    fix d assume d: "d \<in> set (U @ I)"
    show "if lv_side d = ''Buy'' then lv_price d \<in> dom (map_of b1)
          else lv_price d \<in> dom (map_of a1)"
      unfolding 2(4,5) using upserts_in_dom[OF d] by (simp del: dom_map_add)
  qed
  with 1 2 show ?thesis by simp
qed

theorem deletes_before_upserts_witness:
  "fst replace_once = None \<and>
   bids_of (fst (snd replace_once)) 100 = Some (mk_level 100 ''Buy'' 9)"
proof -
  have e: "fst replace_once = None"
    by (simp add: replace_once_def delta_replace_def delta_eval)
  have ty: "ptype delta_replace \<noteq> ''snapshot''"
    by (simp add: delta_replace_def depth_packet_def)
  have od: "is_on_depth BybitWebsocketApi_on_depth" by (simp add: is_on_depth_def)
  have r: "BybitWebsocketApi_on_depth delta_replace ex_ws_book ex_gateway =
      (fst replace_once, fst (snd replace_once), snd (snd replace_once))"
    by (simp add: replace_once_def)
  from deletes_before_upserts[OF od ty r] e
  obtain tp dd D U I b' a' where h: "topic delta_replace = Some tp"
    "pk_data delta_replace = DepthDict dd" "dd_insert dd = Some I" "dd_update dd = Some U"
    "symbol_bids (fst (snd replace_once)) (book_symbol tp) = Some b'"
    "map_of b' = (map_of (setdefault_book (symbol_bids ex_ws_book) (book_symbol tp))
                    |` (- fst ` set (buys D))) ++ map_of (rev (buys (U @ I)))"
    by auto
  from h(1) have tp: "book_symbol tp = ''BTCUSD''"
    by (auto simp: delta_replace_def depth_packet_def book_symbol_BTCUSD)
  from h(2,3,4) have ui: "U = [mk_level 101 ''Sell'' 3]" "I = [mk_level 100 ''Buy'' 9]"
    by (auto simp: delta_replace_def depth_packet_def delta_dict_def)
  have "map_of b' 100 = Some (mk_level 100 ''Buy'' 9)"
    by (simp add: h(6) ui buys_def mk_level_def)
  with h(5) tp e show ?thesis by (simp add: bids_of_def)
qed

text \<open>
  Without the condition the claim fails: a delete of a price that is absent raises
  \<^verbatim>\<open>KeyError\<close> before any entry of \<^verbatim>\<open>update + insert\<close> is stored. The delta below deletes
  the bid at 100, which rests, then a bid at 50, which does not, and inserts a bid at 100:
  the bid at 100 is removed and its insert is lost.
\<close>

theorem deletes_before_upserts_counterexample:
  "fst stale_delete_run = Some KeyError \<and>
   bids_of ex_ws_book 100 = Some (mk_level 100 ''Buy'' 1) \<and>
   bids_of (fst (snd stale_delete_run)) 100 = None"
  by (simp add: stale_delete_run_def delta_stale_delete_def delta_eval bids_of_def)
section \<open>Properties of the session\<close>

subsection \<open>Frames without a handler\<close>

text \<open>
  Claim C8, as amended. For a push frame whose topic has no handler in \<^verbatim>\<open>callbacks\<close>,
  \<^verbatim>\<open>on_packet\<close> of either class raises the \<^verbatim>\<open>KeyError\<close> of the table lookup. No handler
  runs, \<^verbatim>\<open>on_packet\<close> writes no log, and the connection and the gateway are unchanged:
  the frame is dropped by the exception, and reporting it is left to the caller.
\<close>

theorem on_packet_unknown_topic:
  assumes "topic pk = Some channel" and "callbacks w channel = None"
  shows "BybitWebsocketApi_on_packet now pk w g = (Some KeyError, w, g) \<and>
         BybitPublicWebsocketApi_on_packet utcoffset pk w g = (Some KeyError, w, g)"
  using assms
  by (simp add: BybitWebsocketApi_on_packet_def BybitPublicWebsocketApi_on_packet_def)

theorem on_packet_unknown_topic_witness:
  "unknown_topic_run = (Some KeyError, ex_ws, ex_gateway) \<and>
   unknown_topic_run_public = (Some KeyError, ex_ws, ex_gateway)"
  unfolding unknown_topic_run_def unknown_topic_run_public_def
  by (rule on_packet_unknown_topic[where channel = "''liquidation''"])
    (simp_all add: unknown_topic_packet_def ex_ws_def)

text \<open>
  The claim as stated asks for a log entry and no exception. On a frame for the topic
  \<^verbatim>\<open>liquidation\<close>, which nobody subscribed to, both classes raise \<^verbatim>\<open>KeyError\<close> and the
  list of events, logs included, stays empty.
\<close>

theorem on_packet_unknown_topic_counterexample:
  "fst unknown_topic_run = Some KeyError \<and> events (snd (snd unknown_topic_run)) = [] \<and>
   fst unknown_topic_run_public = Some KeyError \<and>
   events (snd (snd unknown_topic_run_public)) = []"
  by (simp add: unknown_topic_run_def unknown_topic_run_public_def
      BybitWebsocketApi_on_packet_def BybitPublicWebsocketApi_on_packet_def
      unknown_topic_packet_def ex_ws_def ex_gateway_def)
subsection \<open>Resubscription after login\<close>

lemma sent_subscribe_topic [simp]:
  "sent (subscribe_topic tp cb w) = sent w @ [subscribe_frame tp]"
  "subscribed (subscribe_topic tp cb w) = subscribed w"
  by (simp_all add: subscribe_topic_def subscribe_frame_def)

lemma sent_subscribe:
  "sent (subscribe now gn req w) = sent w @ map subscribe_frame (market_topics (sr_symbol req))"
  by (simp add: subscribe_def Let_def market_topics_def)

lemma subscribed_subscribe:
  "subscribed (subscribe now gn req w) = AList.update (sr_symbol req) req (subscribed w)"
  by (simp add: subscribe_def Let_def)

lemma market_frame_topics: "f \<in> set (map subscribe_frame (market_topics s)) \<Longrightarrow> market_frame f"
  by (auto simp: market_topics_def subscribe_frame_def market_frame_def has_prefix_def)

lemma resubscribe_sent:
  "\<exists>rest. sent (snd (resubscribe now gn i w)) = sent w @ rest \<and> (\<forall>f\<in>set rest. market_frame f)"
proof (induction now gn i w rule: resubscribe.induct)
  case (1 now gn i w)
  show ?case
  proof (cases "i < length (subscribed w)")
    case False
    then show ?thesis by (subst resubscribe.simps) simp
  next
    case True
    let ?w1 = "subscribe now gn (snd (subscribed w ! i)) w"
    let ?m = "map subscribe_frame (market_topics (sr_symbol (snd (subscribed w ! i))))"
    have s1: "sent ?w1 = sent w @ ?m" by (rule sent_subscribe)
    have m: "\<forall>f\<in>set ?m. market_frame f" using market_frame_topics by blast
    show ?thesis
    proof (cases "length (subscribed ?w1) = length (subscribed w)")
      case False
      with True have "resubscribe now gn i w = (Some RuntimeError, ?w1)"
        by (subst resubscribe.simps) (simp add: Let_def)
      with s1 m show ?thesis by auto
    next
      case eq: True
      with True have r: "resubscribe now gn i w = resubscribe now gn (Suc i) ?w1"
        by (subst resubscribe.simps) (simp add: Let_def)
      from "1.IH"[OF True refl eq] obtain rest where
        "sent (snd (resubscribe now gn (Suc i) ?w1)) = sent ?w1 @ rest"
        "\<forall>f\<in>set rest. market_frame f" by blast
      with s1 m r have "sent (snd (resubscribe now gn i w)) = sent w @ (?m @ rest) \<and>
          (\<forall>f\<in>set (?m @ rest). market_frame f)" by auto
      then show ?thesis by blast
    qed
  qed
qed

lemma wf_subscribe_same:
  assumes "wf_subscribed w" "i < length (subscribed w)"
  shows "subscribed (subscribe now gn (snd (subscribed w ! i)) w) = subscribed w"
proof -
  let ?p = "subscribed w ! i"
  from assms have mem: "?p \<in> set (subscribed w)" by simp
  with assms(1) have k: "fst ?p = sr_symbol (snd ?p)"
    by (auto simp: wf_subscribed_def list_all_iff)
  from assms(1) mem have "map_of (subscribed w) (fst ?p) = Some (snd ?p)"
    by (simp add: wf_subscribed_def)
  then show ?thesis by (simp add: subscribed_subscribe k[symmetric] update_triv)
qed

lemma resubscribe_wf:
  "wf_subscribed w \<Longrightarrow>
     fst (resubscribe now gn i w) = None \<and>
     sent (snd (resubscribe now gn i w)) =
       sent w @ concat (map (\<lambda>(k, req). map subscribe_frame (market_topics (sr_symbol req)))
                          (drop i (subscribed w)))"
proof (induction now gn i w rule: resubscribe.induct)
  case (1 now gn i w)
  show ?case
  proof (cases "i < length (subscribed w)")
    case False
    then show ?thesis by (subst (1 2) resubscribe.simps) simp
  next
    case True
    let ?w1 = "subscribe now gn (snd (subscribed w ! i)) w"
    have same: "subscribed ?w1 = subscribed w" using "1.prems" True by (rule wf_subscribe_same)
    then have wf1: "wf_subscribed ?w1" using "1.prems" by (simp add: wf_subscribed_def)
    from True same have r: "resubscribe now gn i w = resubscribe now gn (Suc i) ?w1"
      by (subst resubscribe.simps) (simp add: Let_def)
    from same have eq: "length (subscribed ?w1) = length (subscribed w)" by simp
    note IH = "1.IH"[OF True refl eq wf1]
    have d: "drop i (subscribed w) = subscribed w ! i # drop (Suc i) (subscribed w)"
      using True by (simp add: Cons_nth_drop_Suc)
    show ?thesis
      unfolding r using IH by (simp add: same d sent_subscribe split_beta)
  qed
qed

lemma private_not_market:
  "tp \<in> set (private_topics u) \<Longrightarrow> \<not> market_frame (subscribe_frame tp)"
  by (auto simp: private_topics_def market_frame_def subscribe_frame_def has_prefix_def
      split: if_splits)

text \<open>
  Claim C7. After a successful answer to the authentication request, the frames
  \<^verbatim>\<open>on_login\<close> sends are, in this order: the subscribe frames for \<^verbatim>\<open>order\<close>,
  \<^verbatim>\<open>execution\<close>, \<^verbatim>\<open>position\<close> and, in USDT mode, \<^verbatim>\<open>wallet\<close>; then market data frames
  only. None of the private frames is a market data frame. When \<^verbatim>\<open>subscribed\<close> has the
  shape \<^verbatim>\<open>subscribe\<close> gives it, \<^verbatim>\<open>on_login\<close> returns without raising and the market data
  frames are the two topics of each remembered request, in the order of the dict.
\<close>

theorem on_login_private_first:
  assumes ok: "login_success pk"
  shows "\<exists>rest.
     sent (fst (snd (on_login now pk w g))) =
       sent w @ map subscribe_frame (private_topics (usdt_base g)) @ rest \<and>
     list_all (\<lambda>tp. \<not> market_frame (subscribe_frame tp)) (private_topics (usdt_base g)) \<and>
     list_all market_frame rest \<and>
     (wf_subscribed w \<longrightarrow>
        fst (on_login now pk w g) = None \<and>
        rest = concat (map (\<lambda>(k, req). map subscribe_frame (market_topics (sr_symbol req)))
                         (subscribed w)))"
proof -
  define w4 where "w4 =
    (let w1 = subscribe_topic ''order'' H_on_order w;
         w2 = subscribe_topic ''execution'' H_on_trade w1;
         w3 = subscribe_topic ''position'' H_on_position w2
     in if usdt_base g then subscribe_topic ''wallet'' H_on_account w3 else w3)"
  have s4: "sent w4 = sent w @ map subscribe_frame (private_topics (usdt_base g))"
    by (simp add: w4_def Let_def private_topics_def)
  have sub4: "subscribed w4 = subscribed w"
    by (simp add: w4_def Let_def)
  have l: "on_login now pk w g =
      (fst (resubscribe now (gateway_name g) 0 w4), snd (resubscribe now (gateway_name g) 0 w4),
       write_log Log_login_ok g)"
    using ok by (simp add: on_login_def w4_def Let_def split: prod.splits)
  from resubscribe_sent[of now "gateway_name g" 0 w4] obtain rest where
    rest: "sent (snd (resubscribe now (gateway_name g) 0 w4)) = sent w4 @ rest"
      "\<forall>f\<in>set rest. market_frame f" by blast
  have wf: "fst (resubscribe now (gateway_name g) 0 w4) = None \<and>
      rest = concat (map (\<lambda>(k, req). map subscribe_frame (market_topics (sr_symbol req)))
                         (subscribed w))" if "wf_subscribed w"
  proof -
    from that sub4 have "wf_subscribed w4" by (simp add: wf_subscribed_def)
    from resubscribe_wf[OF this, of now "gateway_name g" 0] rest(1) sub4
    show ?thesis by simp
  qed
  have p: "list_all (\<lambda>tp. \<not> market_frame (subscribe_frame tp)) (private_topics (usdt_base g))"
    using private_not_market by (auto simp: list_all_iff)
  from rest s4 wf p show ?thesis
    by (intro exI[of _ rest]) (simp add: l list_all_iff)
qed

theorem on_login_private_first_witness:
  "fst (on_login 0 auth_ok ex_ws_two ex_gateway) = None \<and>
   sent (fst (snd (on_login 0 auth_ok ex_ws_two ex_gateway))) =
     map subscribe_frame [''order'', ''execution'', ''position'',
       ''instrument_info.100ms.BTCUSD'', ''orderBookL2_25.BTCUSD'',
       ''instrument_info.100ms.ETHUSD'', ''orderBookL2_25.ETHUSD'']"
proof -
  have ok: "login_success auth_ok" by (simp add: login_success_def auth_ok_def)
  have wf: "wf_subscribed ex_ws_two" by (simp add: wf_subscribed_def ex_ws_two_def)
  from on_login_private_first[OF ok, of 0 ex_ws_two ex_gateway] wf
  show ?thesis
    by (auto simp: private_topics_def market_topics_def ex_ws_two_def ex_gateway_def)
qed

section \<open>Properties of \<^verbatim>\<open>on_tick\<close>\<close>

lemma set_tick_same: "ticks w symbol = Some tick \<Longrightarrow> set_tick symbol tick w = w"
  by (simp add: set_tick_def fun_upd_idem)

lemma falsy_price_flow:
  assumes "falsy_price_packet pk"
  obtains d where "pk_data pk = TickDict d"
    "(if ptype pk = ''snapshot'' then ws_tick_snapshot (tf d) tick
      else ws_tick_update d tick) = (Return, tick)"
    "(if ptype pk = ''snapshot'' then public_tick_snapshot (tf d) tick
      else public_tick_update d tick) = (Return, tick)"
proof -
  from assms obtain d where d: "pk_data pk = TickDict d"
    by (cases "pk_data pk") (auto simp: falsy_price_packet_def tested_price_def)
  from assms d obtain v where v: "\<not> truthy v"
    and c: "if ptype pk = ''snapshot'' then last_price_e4 (tf d) = Some v
         else \<exists>u us. td_update d = Some (u # us) \<and> last_price_e4 u = Some v"
    by (auto simp: falsy_price_packet_def tested_price_def
        split: if_splits option.splits list.splits)
  from v c have "(if ptype pk = ''snapshot'' then ws_tick_snapshot (tf d) tick
      else ws_tick_update d tick) = (Return, tick)"
    by (auto simp: ws_tick_snapshot_def ws_tick_update_def split: if_splits)
  moreover from v c have "(if ptype pk = ''snapshot'' then public_tick_snapshot (tf d) tick
      else public_tick_update d tick) = (Return, tick)"
    by (auto simp: public_tick_snapshot_def public_tick_update_def split: if_splits)
  ultimately show thesis using d that by blast
qed

text \<open>
  What the test \<^verbatim>\<open>if not ...: return\<close> filters. For an instrument packet whose
  \<^verbatim>\<open>last_price_e4\<close> is the number zero, \<^verbatim>\<open>None\<close> or the empty string, \<^verbatim>\<open>on_tick\<close> of
  either class leaves the connection and the gateway exactly as they were, and it returns
  without raising when the packet is otherwise well formed.
\<close>

lemma on_tick_falsy_price_returns:
  assumes z: "falsy_price_packet pk"
  shows "snd (BybitWebsocketApi_on_tick pk w g) = (w, g) \<and>
         snd (BybitPublicWebsocketApi_on_tick utcoffset pk w g) = (w, g) \<and>
         (\<forall>tp tick. topic pk = Some tp \<and> ticks w (tick_symbol tp) = Some tick \<longrightarrow>
            fst (BybitWebsocketApi_on_tick pk w g) = None \<and>
            (\<forall>ts. timestamp_seconds (timestamp_e6 pk) = Inr ts \<longrightarrow>
               fst (BybitPublicWebsocketApi_on_tick utcoffset pk w g) = None))"
proof -
  have ws: "BybitWebsocketApi_on_tick pk w g = (None, w, g)"
    if "topic pk = Some tp" "ticks w (tick_symbol tp) = Some tick" for tp tick
  proof -
    from z obtain d where "pk_data pk = TickDict d"
      "(if ptype pk = ''snapshot'' then ws_tick_snapshot (tf d) tick
        else ws_tick_update d tick) = (Return, tick)"
      by (rule falsy_price_flow)
    with that show ?thesis
      by (simp add: BybitWebsocketApi_on_tick_def set_tick_same)
  qed
  have pub: "BybitPublicWebsocketApi_on_tick utcoffset pk w g = (None, w, g)"
    if "topic pk = Some tp" "ticks w (tick_symbol tp) = Some tick"
      "timestamp_seconds (timestamp_e6 pk) = Inr ts" for tp tick ts
  proof -
    from z obtain d where "pk_data pk = TickDict d"
      "(if ptype pk = ''snapshot'' then public_tick_snapshot (tf d) tick
        else public_tick_update d tick) = (Return, tick)"
      by (rule falsy_price_flow)
    with that show ?thesis
      by (simp add: BybitPublicWebsocketApi_on_tick_def set_tick_same)
  qed
  have 1: "snd (BybitWebsocketApi_on_tick pk w g) = (w, g)"
  proof (cases "topic pk")
    case None
    then show ?thesis by (simp add: BybitWebsocketApi_on_tick_def)
  next
    case (Some tp)
    show ?thesis
    proof (cases "ticks w (tick_symbol tp)")
      case None
      with Some show ?thesis by (simp add: BybitWebsocketApi_on_tick_def)
    next
      case (Some tick)
      with ws[OF \<open>topic pk = Some tp\<close> Some] show ?thesis by simp
    qed
  qed
  have 2: "snd (BybitPublicWebsocketApi_on_tick utcoffset pk w g) = (w, g)"
  proof (cases "topic pk")
    case None
    then show ?thesis by (simp add: BybitPublicWebsocketApi_on_tick_def)
  next
    case (Some tp)
    note tp = this
    show ?thesis
    proof (cases "timestamp_seconds (timestamp_e6 pk)")
      case (Inl e)
      with tp show ?thesis by (simp add: BybitPublicWebsocketApi_on_tick_def)
    next
      case (Inr ts)
      show ?thesis
      proof (cases "ticks w (tick_symbol tp)")
        case None
        with tp Inr show ?thesis by (simp add: BybitPublicWebsocketApi_on_tick_def)
      next
        case (Some tick)
        with pub[OF tp Some Inr] show ?thesis by simp
      qed
    qed
  qed
  from 1 2 ws pub show ?thesis by simp
qed

lemma tick_symbol_BTCUSD: "tick_symbol ''instrument_info.100ms.BTCUSD'' = ''BTCUSD''"
  by (simp add: tick_symbol_def str_remove.simps)

lemma on_tick_falsy_price_example:
  "BybitWebsocketApi_on_tick zero_price_snapshot ex_ws ex_gateway = (None, ex_ws, ex_gateway) \<and>
   BybitPublicWebsocketApi_on_tick utc_plus_8 zero_price_update ex_ws ex_gateway =
     (None, ex_ws, ex_gateway)"
proof -
  have z1: "falsy_price_packet zero_price_snapshot"
    by (simp add: falsy_price_packet_def tested_price_def zero_price_snapshot_def tick_packet_def)
  have z2: "falsy_price_packet zero_price_update"
    by (simp add: falsy_price_packet_def tested_price_def zero_price_update_def tick_packet_def)
  have tp1: "topic zero_price_snapshot = Some ''instrument_info.100ms.BTCUSD''"
    by (simp add: zero_price_snapshot_def tick_packet_def)
  have tp2: "topic zero_price_update = Some ''instrument_info.100ms.BTCUSD''"
    by (simp add: zero_price_update_def tick_packet_def)
  have tk: "ticks ex_ws (tick_symbol ''instrument_info.100ms.BTCUSD'') = Some ex_tick"
    by (simp add: ex_ws_def tick_symbol_BTCUSD)
  have ts: "timestamp_seconds (timestamp_e6 zero_price_update) = Inr 1600000000"
    by (simp add: zero_price_update_def tick_packet_def timestamp_seconds_def int_of_str_def
        int_of_digits_def digit_of_def)
  from on_tick_falsy_price_returns[OF z1, where w = ex_ws and g = ex_gateway] tp1 tk
  have a: "BybitWebsocketApi_on_tick zero_price_snapshot ex_ws ex_gateway =
      (None, ex_ws, ex_gateway)"
    by (metis prod.collapse)
  from on_tick_falsy_price_returns[OF z2, where w = ex_ws and g = ex_gateway
      and utcoffset = utc_plus_8] tp2 tk ts
  have b: "BybitPublicWebsocketApi_on_tick utc_plus_8 zero_price_update ex_ws ex_gateway =
      (None, ex_ws, ex_gateway)"
    by (metis prod.collapse)
  from a b show ?thesis by simp
qed

lemmas tick_eval =
  BybitPublicWebsocketApi_on_tick_def public_tick_snapshot_def public_tick_update_def
  int_div_def set_tick_def fromtimestamp_as_utc_def Let_def tick_symbol_BTCUSD
  timestamp_seconds_def int_of_str_def int_of_digits_def digit_of_def
  tick_packet_def ex_ws_priced_def ex_ws_def ex_tick_def ex_gateway_def utc_plus_8_def

text \<open>
  Claim C10. The claim asks that \<^verbatim>\<open>on_tick\<close> returns early, pushes no quote and leaves
  the cached tick unchanged for every instrument packet whose \<^verbatim>\<open>last_price_e4\<close> is zero
  or empty. The source tests \<^verbatim>\<open>not data["last_price_e4"]\<close> under the comment
  \<^verbatim>\<open>Filter last price with 0 value\<close>, and the public feed sends the price as a string:
  its zero is \<^verbatim>\<open>"0"\<close>, which is not empty and so passes the test. On a snapshot and on
  an update with that price, \<^verbatim>\<open>BybitPublicWebsocketApi.on_tick\<close> does not return early: it
  overwrites the cached last price of 9000 with 0 and pushes the tick as a quote.
\<close>

theorem public_on_tick_zero_string_pushes_quote:
  "zero_price_packet zero_string_snapshot \<and>
   fst zero_string_run = None \<and>
   map_option last_price (ticks ex_ws_priced ''BTCUSD'') = Some 9000 \<and>
   map_option last_price (ticks (fst (snd zero_string_run)) ''BTCUSD'') = Some 0 \<and>
   map_option OnTick (ticks (fst (snd zero_string_run)) ''BTCUSD'') =
     Some (last (events (snd (snd zero_string_run)))) \<and>
   length (events (snd (snd zero_string_run))) = 1 \<and>
   zero_price_packet zero_string_update \<and>
   fst zero_string_update_run = None \<and>
   map_option last_price (ticks (fst (snd zero_string_update_run)) ''BTCUSD'') = Some 0 \<and>
   map_option OnTick (ticks (fst (snd zero_string_update_run)) ''BTCUSD'') =
     Some (last (events (snd (snd zero_string_update_run)))) \<and>
   length (events (snd (snd zero_string_update_run))) = 1"
proof -
  have z1: "zero_price_packet zero_string_snapshot"
    by (simp add: zero_price_packet_def tested_price_def zero_or_empty_def
        zero_string_snapshot_def tick_packet_def int_of_str_def int_of_digits_def digit_of_def)
  have z2: "zero_price_packet zero_string_update"
    by (simp add: zero_price_packet_def tested_price_def zero_or_empty_def
        zero_string_update_def tick_packet_def int_of_str_def int_of_digits_def digit_of_def)
  have p: "map_option last_price (ticks ex_ws_priced ''BTCUSD'') = Some 9000"
    by (simp add: ex_ws_priced_def ex_ws_def)
  have a1: "fst zero_string_run = None"
    by (simp add: zero_string_run_def zero_string_snapshot_def tick_eval)
  have a2: "map_option last_price (ticks (fst (snd zero_string_run)) ''BTCUSD'') = Some 0"
    by (simp add: zero_string_run_def zero_string_snapshot_def tick_eval)
  have a3: "map_option OnTick (ticks (fst (snd zero_string_run)) ''BTCUSD'') =
     Some (last (events (snd (snd zero_string_run))))"
    by (simp add: zero_string_run_def zero_string_snapshot_def tick_eval)
  have a4: "length (events (snd (snd zero_string_run))) = 1"
    by (simp add: zero_string_run_def zero_string_snapshot_def tick_eval)
  have b1: "fst zero_string_update_run = None"
    by (simp add: zero_string_update_run_def zero_string_update_def tick_eval)
  have b2: "map_option last_price (ticks (fst (snd zero_string_update_run)) ''BTCUSD'') = Some 0"
    by (simp add: zero_string_update_run_def zero_string_update_def tick_eval)
  have b3: "map_option OnTick (ticks (fst (snd zero_string_update_run)) ''BTCUSD'') =
     Some (last (events (snd (snd zero_string_update_run))))"
    by (simp add: zero_string_update_run_def zero_string_update_def tick_eval)
  have b4: "length (events (snd (snd zero_string_update_run))) = 1"
    by (simp add: zero_string_update_run_def zero_string_update_def tick_eval)
  from z1 z2 p a1 a2 a3 a4 b1 b2 b3 b4 show ?thesis by simp
qed

section \<open>Properties of the REST callbacks and of the order manager\<close>

subsection \<open>Exceptions while sending an order\<close>

text \<open>
  Claim C9, as amended. Whatever exception \<^verbatim>\<open>on_send_order_error\<close> is handed, it marks
  the order of the request rejected, makes it the record of its local id and pushes it as
  an order event, and it returns. The exception is logged, and written to
  \<^verbatim>\<open>sys.stderr\<close>, only when it is not a \<^verbatim>\<open>ConnectionError\<close>: for a connection error
  the order event is all the handler emits.
\<close>

theorem on_send_order_error_rejects:
  "on_send_order_error exception_type exception_value request g = (request', g') \<Longrightarrow>
     extra request' = (extra request)\<lparr>status := REJECTED\<rparr> \<and>
     orders (order_manager g') (orderid (extra request)) = Some (extra request') \<and>
     events g' = events g @ [OnOrder (extra request')] @
       (if issubclass_ConnectionError exception_type then []
        else [OnLog (Log_exception exception_type exception_value)]) \<and>
     stderr g' = stderr g @
       (if issubclass_ConnectionError exception_type then []
        else [(exception_type, exception_value)])"
  by (auto simp: on_send_order_error_def Let_def LocalOrderManager_on_order_def on_error_def
      write_log_def)

theorem on_send_order_error_rejects_witness:
  "extra (fst connection_error_run) = ex_order\<lparr>status := REJECTED\<rparr> \<and>
   orders (order_manager (snd connection_error_run)) ''L1'' =
     Some (ex_order\<lparr>status := REJECTED\<rparr>) \<and>
   events (snd connection_error_run) = [OnOrder (ex_order\<lparr>status := REJECTED\<rparr>)]"
proof -
  have r: "on_send_order_error Exc_ConnectionError ''refused'' ex_request ex_gateway_order =
      (fst connection_error_run, snd connection_error_run)"
    by (simp add: connection_error_run_def)
  from on_send_order_error_rejects[OF r] show ?thesis
    by (simp add: ex_request_def ex_gateway_order_def ex_gateway_def ex_order_def)
qed

text \<open>
  The claim as stated also asks that the fault is logged. For a \<^verbatim>\<open>ConnectionError\<close> the
  events after the handler hold the rejected order and no log entry, and nothing is
  written to \<^verbatim>\<open>sys.stderr\<close>.
\<close>

theorem on_send_order_error_counterexample:
  "events (snd connection_error_run) = [OnOrder (ex_order\<lparr>status := REJECTED\<rparr>)] \<and>
   stderr (snd connection_error_run) = []"
  by (simp add: connection_error_run_def on_send_order_error_def Let_def
      LocalOrderManager_on_order_def ex_request_def ex_gateway_order_def ex_gateway_def)
subsection \<open>Order identities\<close>

lemma make_order_Inr:
  assumes "make_order gn l dt d = Inr ord"
  shows "dict_get STATUS_BYBIT2VT (op_order_status d) = Inr (status ord)"
    and "orderid ord = l" and "traded ord = op_cum_exec_qty d" and "od_datetime ord = dt"
  using assms by (auto simp: make_order_def split: sum.splits)

lemma update_orderid_map_fresh:
  assumes "\<not> already_bound (order_manager g) l s" "\<not> identity_conflict (order_manager g) l s"
  shows "local_sys_orderid_map (order_manager (update_orderid_map l s g)) =
           (local_sys_orderid_map (order_manager g))(l \<mapsto> s)"
    and "sys_local_orderid_map (order_manager (update_orderid_map l s g)) =
           (sys_local_orderid_map (order_manager g))(s \<mapsto> l)"
    and "orders (order_manager (update_orderid_map l s g)) = orders (order_manager g)"
    and "events (update_orderid_map l s g) = events g"
    and "gateway_name (update_orderid_map l s g) = gateway_name g"
    and "pending (order_manager (update_orderid_map l s g)) = pending (order_manager g) - {l}"
  using assms by (simp_all add: update_orderid_map_def Let_def)


lemma on_order_stored:
  "orders (order_manager (LocalOrderManager_on_order ord g)) =
     (orders (order_manager g))(orderid ord \<mapsto> ord)"
  "local_sys_orderid_map (order_manager (LocalOrderManager_on_order ord g)) =
     local_sys_orderid_map (order_manager g)"
  "sys_local_orderid_map (order_manager (LocalOrderManager_on_order ord g)) =
     sys_local_orderid_map (order_manager g)"
  "events (LocalOrderManager_on_order ord g) = events g @ [OnOrder ord]"
  "pending (order_manager (LocalOrderManager_on_order ord g)) = pending (order_manager g)"
  by (simp_all add: LocalOrderManager_on_order_def)

text \<open>
  A packet or a page with a single entry runs the loop body once.
\<close>

lemma on_order_single:
  "pk_data pk = OrderList [d] \<Longrightarrow>
     BybitWebsocketApi_on_order pk w g = (fst (on_order_entry d g), w, snd (on_order_entry d g))"
  by (cases "on_order_entry d g")
    (auto simp: BybitWebsocketApi_on_order_def split: option.splits)

lemma on_query_order_single:
  assumes "ret_code data = 0" "qo_result data = Some pg" "page_data pg = [d]"
    and "current_page pg = last_page pg" "on_query_order_entry d g = (None, g1)"
  shows "on_query_order data g = (None, write_log Log_query_order_done g1)"
  using assms by (simp add: on_query_order_def check_error_def)

text \<open>
  Claim C5. Let a venue record carry an empty \<^verbatim>\<open>order_link_id\<close> and a venue id that the
  identity map knows in neither direction, and let its type, side and status be strings
  of the three tables. Then the loop body of \<^verbatim>\<open>on_order\<close> (for a push update) and the loop
  body of \<^verbatim>\<open>on_query_order\<close> (for a queried order) take the venue id as local id, bind the
  pair in both directions, store the new order under that id and push it as an order event.
\<close>

theorem unbound_push_binds_venue_id:
  assumes link: "op_order_link_id d = []"
    and s2l: "sys_local_orderid_map (order_manager g) (op_order_id d) = None"
    and l2s: "local_sys_orderid_map (order_manager g) (op_order_id d) = None"
    and ws: "make_order (gateway_name g) (op_order_id d) (op_timestamp d) d = Inr pushed"
    and rest: "make_order (gateway_name g) (op_order_id d) (op_created_at d) d = Inr queried"
  shows "(\<exists>g1. on_order_entry d g = (None, g1) \<and>
            orderid pushed = op_order_id d \<and>
            local_sys_orderid_map (order_manager g1) (op_order_id d) = Some (op_order_id d) \<and>
            sys_local_orderid_map (order_manager g1) (op_order_id d) = Some (op_order_id d) \<and>
            orders (order_manager g1) (op_order_id d) = Some pushed \<and>
            events g1 = events g @ [OnOrder pushed]) \<and>
         (\<exists>g1. on_query_order_entry d g = (None, g1) \<and>
            orderid queried = op_order_id d \<and>
            local_sys_orderid_map (order_manager g1) (op_order_id d) = Some (op_order_id d) \<and>
            sys_local_orderid_map (order_manager g1) (op_order_id d) = Some (op_order_id d) \<and>
            orders (order_manager g1) (op_order_id d) = Some queried \<and>
            events g1 = events g @ [OnOrder queried])"
proof -
  let ?V = "op_order_id d"
  have nb: "\<not> already_bound (order_manager g) ?V ?V" "\<not> identity_conflict (order_manager g) ?V ?V"
    using s2l l2s by (simp_all add: already_bound_def identity_conflict_def)
  note u = update_orderid_map_fresh[OF nb]
  have none: "get_order_with_sys_orderid ?V g = None"
    using s2l by (simp add: get_order_with_sys_orderid_def)
  have a: "on_order_entry d g =
      (None, LocalOrderManager_on_order pushed (update_orderid_map ?V ?V g))"
    using none ws link by (simp add: on_order_entry_def Let_def local_orderid_of_def)
  have b: "on_query_order_entry d g =
      (None, LocalOrderManager_on_order queried (update_orderid_map ?V ?V g))"
    using rest link by (simp add: on_query_order_entry_def Let_def local_orderid_of_def)
  show ?thesis
    unfolding a b using make_order_Inr(2)[OF ws] make_order_Inr(2)[OF rest]
    by (simp add: on_order_stored u)
qed


lemmas order_eval =
  make_order_def dict_get_def STATUS_BYBIT2VT_def DIRECTION_BYBIT2VT_def
  DIRECTION_VT2BYBIT_def ORDER_TYPE_BYBIT2VT_def ORDER_TYPE_VT2BYBIT_def ex_push_def
  ex_gateway_order_def ex_gateway_def ex_order_def

theorem unbound_push_binds_venue_id_witness:
  "fst v9_run = None \<and>
   local_sys_orderid_map (order_manager (snd (snd v9_run))) ''V9'' = Some ''V9'' \<and>
   sys_local_orderid_map (order_manager (snd (snd v9_run))) ''V9'' = Some ''V9'' \<and>
   map_option orderid (orders (order_manager (snd (snd v9_run))) ''V9'') = Some ''V9'' \<and>
   map_option status (orders (order_manager (snd (snd v9_run))) ''V9'') = Some ALLTRADED \<and>
   events (snd (snd v9_run)) =
     [OnOrder (the (orders (order_manager (snd (snd v9_run))) ''V9''))]"
proof -
  let ?d = "ex_push ''V9'' []"
  obtain pushed where p: "make_order (gateway_name ex_gateway_order) (op_order_id ?d)
      (op_timestamp ?d) ?d = Inr pushed" and st: "status pushed = ALLTRADED"
    by (simp add: order_eval)
  obtain queried where q: "make_order (gateway_name ex_gateway_order) (op_order_id ?d)
      (op_created_at ?d) ?d = Inr queried"
    by (simp add: order_eval)
  have "op_order_link_id ?d = []" by (simp add: ex_push_def)
  moreover have "sys_local_orderid_map (order_manager ex_gateway_order) (op_order_id ?d) = None"
    "local_sys_orderid_map (order_manager ex_gateway_order) (op_order_id ?d) = None"
    by (simp_all add: ex_gateway_order_def ex_gateway_def)
  ultimately obtain g1 where g1: "on_order_entry ?d ex_gateway_order = (None, g1)"
    "orderid pushed = op_order_id ?d"
    "local_sys_orderid_map (order_manager g1) (op_order_id ?d) = Some (op_order_id ?d)"
    "sys_local_orderid_map (order_manager g1) (op_order_id ?d) = Some (op_order_id ?d)"
    "orders (order_manager g1) (op_order_id ?d) = Some pushed"
    "events g1 = events ex_gateway_order @ [OnOrder pushed]"
    using unbound_push_binds_venue_id[OF _ _ _ p q] by blast
  have r: "v9_run = (None, ex_ws, g1)"
    using g1(1) by (simp add: v9_run_def BybitWebsocketApi_on_order_def order_packet_def)
  have v: "op_order_id ?d = ''V9''" by (simp add: ex_push_def)
  have ev: "events ex_gateway_order = []" by (simp add: ex_gateway_order_def ex_gateway_def)
  show ?thesis
    unfolding r using g1(2-6) st by (simp add: v ev)
qed



section \<open>Properties of \<^verbatim>\<open>query_history\<close>\<close>










end
